theory Spec2Isabelle
  imports Main
begin

unbundle bit_operations_syntax

section \<open>The analysis engine as seen by scripts/ghidra_decompile.py\<close>

text \<open>
  The script is glue over an external analysis engine. Its own logic is the order of the
  engine calls, the guards between them and the \<^verbatim>\<open>try/except\<close> blocks around them. The
  model therefore keeps three things explicit:
  \<^item> the program the engine holds (\<open>currentProgram\<close>, possibly \<open>None\<close>), as a record of the
    tables the script queries;
  \<^item> the sequence of engine calls the script has issued so far (\<open>calls\<close>);
  \<^item> exceptions as values: an engine call raises when the engine's fault table \<open>raises\<close>
    says so for that call at that moment, and a raising call has no effect on the program.
  Reading a field of an object the engine has already handed out (\<open>symbol.getName()\<close>,
  \<open>instr.getBytes()\<close>, \<open>function.getBody()\<close>) is a field read of the model and does not raise.
  A method called with fewer arguments than every signature of the engine's interface
  takes raises \<open>TypeError\<close>, as Jython does: \<open>Address.getAddress\<close> takes the address text
  (line 22 passes nothing) and \<open>Instruction.getDefaultOperandRepresentation\<close> takes the
  operand index (line 58 passes nothing).
  Every exception of the model is one that \<^verbatim>\<open>except Exception\<close> catches.
  Addresses are natural numbers up to the last address of the address space;
  \<open>Address.add\<close> raises beyond it.
\<close>

type_synonym addr = nat

datatype exn =
    AttributeError string \<comment> \<open>attribute access on \<open>None\<close>; the string is the attribute\<close>
  | TypeError string \<comment> \<open>a method called with the wrong number of arguments; its message\<close>
  | EngineError string \<comment> \<open>an exception thrown by the engine, with its message\<close>

text \<open>\<open>str(e)\<close>\<close>

definition str_exn :: "exn \<Rightarrow> string" where
  "str_exn e =
     (case e of
        AttributeError a \<Rightarrow>
          [CHR 0x27] @ ''NoneType'' @ [CHR 0x27] @ '' object has no attribute ''
            @ [CHR 0x27] @ a @ [CHR 0x27]
      | TypeError m \<Rightarrow> m
      | EngineError m \<Rightarrow> m)"

datatype source_type = DEFAULT | ANALYSIS | IMPORTED | USER_DEFINED

text \<open>\<open>str(symbol.getSource())\<close>: the name of the enumeration constant.\<close>

definition str_source_type :: "source_type \<Rightarrow> string" where
  "str_source_type s =
     (case s of DEFAULT \<Rightarrow> ''DEFAULT'' | ANALYSIS \<Rightarrow> ''ANALYSIS''
      | IMPORTED \<Rightarrow> ''IMPORTED'' | USER_DEFINED \<Rightarrow> ''USER_DEFINED'')"

datatype data_type = DataType string

record symbol =
  sym_name :: string
  sym_address :: addr
  sym_type :: string \<comment> \<open>\<open>str(symbol.getSymbolType())\<close>\<close>
  sym_source :: source_type
  sym_external :: bool \<comment> \<open>\<open>symbol.isExternal()\<close>\<close>
  sym_dynamic :: bool \<comment> \<open>a dynamic symbol, generated by the engine and not stored\<close>

record func =
  fn_name :: string
  fn_entry :: addr
  fn_signature :: string \<comment> \<open>\<open>str(func.getSignature())\<close>\<close>
  fn_body :: "(addr \<times> addr) list" \<comment> \<open>the address ranges of \<open>func.getBody()\<close>\<close>

record instr =
  i_address :: addr
  i_mnemonic :: string
  i_bytes :: "int list" \<comment> \<open>\<open>instr.getBytes()\<close>, each a Python integer\<close>
  i_length :: nat

record program =
  p_name :: string
  p_image_base :: addr
  p_language :: string \<comment> \<open>\<open>str(currentProgram.getLanguageID())\<close>\<close>
  p_min_address :: addr
  p_max_address :: addr \<comment> \<open>the last address of the address space\<close>
  p_entry_points :: "addr list" \<comment> \<open>the external entry-point table, in iterator order\<close>
  p_symbols :: "symbol list" \<comment> \<open>the symbol table, in the engine's iteration order\<close>
  p_functions :: "func list" \<comment> \<open>the function manager, in forward address order\<close>
  p_instructions :: "addr \<Rightarrow> instr option" \<comment> \<open>\<open>listing.getInstructionAt\<close>\<close>
  p_eol_comments :: "addr \<Rightarrow> string option" \<comment> \<open>\<open>listing.getComment(EOL_COMMENT, _)\<close>\<close>
  p_data :: "addr \<Rightarrow> data_type option" \<comment> \<open>\<open>listing.getDataAt\<close>: the data and its type\<close>

text \<open>\<open>DecompileResults\<close>: the completion status and the \<open>DecompiledFunction\<close> (its C text).\<close>

record results =
  decompileCompleted :: bool
  getDecompiledFunction :: "string option"

subsection \<open>The records the script builds\<close>

record decompiled_function =
  df_name :: string
  df_entry_point :: string
  df_code :: string
  df_signature :: string
  df_body :: string

record function_record =
  fr_name :: string
  fr_entry_point :: string
  fr_signature :: string
  fr_body_range :: string

record symbol_record =
  sr_name :: string
  sr_address :: string
  sr_type :: string
  sr_source :: string

record instruction_record =
  ir_address :: string
  ir_mnemonic :: string
  ir_operands :: string
  ir_bytes :: string
  ir_comment :: string

record analysis_report =
  ar_program_name :: string
  ar_entry_point :: string
  ar_entry_function :: "decompiled_function option"
  ar_functions :: "function_record list"
  ar_symbols :: "symbol_record list"
  ar_disassembly :: "instruction_record list"
  ar_image_base :: string
  ar_language :: string

text \<open>
  The value \<open>analyze_program\<close> returns: the dictionary of line 161 or the dictionary of
  line 176. \<open>ErrorReport error message traceback program_name\<close>.
\<close>

datatype report =
    AnalysisReport analysis_report
  | ErrorReport bool string string string

record mutation_result =
  success :: bool
  message :: string

subsection \<open>Engine calls\<close>

datatype call =
    ConsoleTaskMonitor_init
  | DecompInterface_init
  | OpenProgram
  | GetExternalEntryPointIterator
  | GetMinAddress
  | GetFunctionContaining addr
  | DecompileFunction func nat
  | GetFunctions bool
  | GetAllSymbols bool
  | GetInstructionAt addr
  | GetComment addr
  | GetName
  | GetImageBase
  | GetLanguageID
  | GetAddress string
  | GetSymbols addr
  | SetName nat string source_type
  | DataTypeParser_import
  | DataTypeParser_init
  | DataTypeParser_parse string
  | GetDataAt addr
  | CreateData addr data_type

text \<open>
  What the engine and the Python runtime contribute beyond the program's tables.
  \<open>raises k c\<close> is the exception that call \<open>c\<close> throws when it is the \<open>k\<close>-th engine call
  of the run (counting from 0), if it throws one.
\<close>

record engine =
  raises :: "nat \<Rightarrow> call \<Rightarrow> exn option"
  address_of :: "string \<Rightarrow> addr" \<comment> \<open>\<open>getAddressFactory().getAddress(text)\<close>\<close>
  type_of :: "string \<Rightarrow> data_type" \<comment> \<open>\<open>DataTypeParser().parse(text)\<close>\<close>
  decompile :: "func \<Rightarrow> nat \<Rightarrow> results option" \<comment> \<open>\<open>decompileFunction(f, timeout, monitor)\<close>\<close>
  str_address :: "addr \<Rightarrow> string" \<comment> \<open>\<open>str(address)\<close>\<close>
  str_body :: "(addr \<times> addr) list \<Rightarrow> string" \<comment> \<open>\<open>str(func.getBody())\<close>\<close>
  format_exc :: "exn \<Rightarrow> string" \<comment> \<open>\<open>traceback.format_exc()\<close> in the handler of the exception\<close>
  json_dumps :: "report \<Rightarrow> exn + string" \<comment> \<open>\<open>json.dumps(result, indent=2)\<close>\<close>

record world =
  currentProgram :: "program option"
  calls :: "call list"

subsection \<open>Statements that may raise\<close>

type_synonym 'a action = "world \<Rightarrow> (exn + 'a) \<times> world"

definition returns :: "'a \<Rightarrow> 'a action" where
  "returns v w = (Inr v, w)"

definition raise_exn :: "exn \<Rightarrow> 'a action" where
  "raise_exn e w = (Inl e, w)"

text \<open>Sequencing: an exception of the first statement skips the rest.\<close>

definition seq :: "'a action \<Rightarrow> ('a \<Rightarrow> 'b action) \<Rightarrow> 'b action" where
  "seq m f w = (case m w of (Inl e, w') \<Rightarrow> (Inl e, w') | (Inr v, w') \<Rightarrow> f v w')"

text \<open>\<^verbatim>\<open>try: m  except Exception as e: h(e)\<close>\<close>

definition try_except :: "'a action \<Rightarrow> (exn \<Rightarrow> 'a action) \<Rightarrow> 'a action" where
  "try_except m h w = (case m w of (Inl e, w') \<Rightarrow> h e w' | (Inr v, w') \<Rightarrow> (Inr v, w'))"

text \<open>\<open>currentProgram.attr\<close>: an \<open>AttributeError\<close> when \<open>currentProgram\<close> is \<open>None\<close>.\<close>

definition currentProgram_attr :: "string \<Rightarrow> program action" where
  "currentProgram_attr attr w =
     (case currentProgram w of
        None \<Rightarrow> (Inl (AttributeError attr), w)
      | Some p \<Rightarrow> (Inr p, w))"

text \<open>An engine call with result \<open>v\<close>: recorded, and raising when the fault table says so.\<close>

definition engine_call :: "engine \<Rightarrow> call \<Rightarrow> 'a \<Rightarrow> 'a action" where
  "engine_call E c v w =
     (case raises E (length (calls w)) c of
        Some e \<Rightarrow> (Inl e, w\<lparr>calls := calls w @ [c]\<rparr>)
      | None \<Rightarrow> (Inr v, w\<lparr>calls := calls w @ [c]\<rparr>))"

definition modify_program :: "(program \<Rightarrow> program) \<Rightarrow> unit action" where
  "modify_program f w = (Inr (), w\<lparr>currentProgram := map_option f (currentProgram w)\<rparr>)"

subsection \<open>What the engine's queries answer\<close>

text \<open>
  \<open>SymbolTable.getAllSymbols(includeDynamicSymbols)\<close>: the stored symbols, and the dynamic
  ones only when asked for.
\<close>

definition all_symbols :: "program \<Rightarrow> bool \<Rightarrow> symbol list" where
  "all_symbols p includeDynamicSymbols =
     filter (\<lambda>s. includeDynamicSymbols \<or> \<not> sym_dynamic s) (p_symbols p)"

text \<open>\<open>FunctionManager.getFunctions(forward)\<close>\<close>

definition all_functions :: "program \<Rightarrow> bool \<Rightarrow> func list" where
  "all_functions p forward = (if forward then p_functions p else rev (p_functions p))"

text \<open>\<open>FunctionManager.getFunctionContaining(address)\<close>\<close>

definition in_body :: "addr \<Rightarrow> func \<Rightarrow> bool" where
  "in_body a f = list_ex (\<lambda>(lo, hi). lo \<le> a \<and> a \<le> hi) (fn_body f)"

definition function_containing :: "program \<Rightarrow> addr \<Rightarrow> func option" where
  "function_containing p a = find (in_body a) (p_functions p)"

text \<open>
  \<open>SymbolTable.getSymbols(address)\<close>: the symbols bound at the address, each identified by
  its position in the table.
\<close>

definition symbols_at :: "program \<Rightarrow> addr \<Rightarrow> nat list" where
  "symbols_at p a =
     filter (\<lambda>i. sym_address (p_symbols p ! i) = a) [0 ..< length (p_symbols p)]"

text \<open>The effect of \<open>symbol.setName(name, source)\<close> on the table; a renamed symbol is stored.\<close>

definition renamed :: "nat \<Rightarrow> string \<Rightarrow> source_type \<Rightarrow> program \<Rightarrow> program" where
  "renamed i name src p =
     p\<lparr>p_symbols := (p_symbols p)
         [i := (p_symbols p ! i)\<lparr>sym_name := name, sym_source := src, sym_dynamic := False\<rparr>]\<rparr>"

text \<open>The effect of \<open>listing.createData(address, data_type)\<close> on the listing.\<close>

definition data_created :: "addr \<Rightarrow> data_type \<Rightarrow> program \<Rightarrow> program" where
  "data_created a dt p = p\<lparr>p_data := (p_data p)(a \<mapsto> dt)\<rparr>"

text \<open>
  \<open>address.add(displacement)\<close>: the address that many bytes further, and an
  \<open>AddressOutOfBoundsException\<close> when that is beyond the address space.
\<close>

definition address_add :: "program \<Rightarrow> addr \<Rightarrow> nat \<Rightarrow> addr action" where
  "address_add p a displacement =
     (if a + displacement \<le> p_max_address p then returns (a + displacement)
      else raise_exn (EngineError ''AddressOutOfBoundsException''))"

text \<open>
  \<open>address.getAddress()\<close>, line 22: the elements of the external entry-point iterator are
  addresses, whose only \<open>getAddress\<close> takes the address text.
\<close>

definition getAddress_no_argument :: "addr \<Rightarrow> addr action" where
  "getAddress_no_argument a = raise_exn (TypeError ''getAddress(): expected 1 args; got 0'')"

text \<open>
  \<open>instr.getDefaultOperandRepresentation()\<close>, line 58: the method takes the operand index.
\<close>

definition getDefaultOperandRepresentation_no_argument :: "instr \<Rightarrow> string action" where
  "getDefaultOperandRepresentation_no_argument i =
     raise_exn (TypeError ''getDefaultOperandRepresentation(): expected 1 args; got 0'')"

section \<open>The script\<close>

subsection \<open>\<open>get_entry_point\<close> (lines 18-23)\<close>

definition get_entry_point :: "engine \<Rightarrow> addr action" where
  "get_entry_point E =
     seq (currentProgram_attr ''getSymbolTable'') (\<lambda>p.
     seq (engine_call E GetExternalEntryPointIterator (p_entry_points p)) (\<lambda>entry_points.
       case entry_points of
         a # _ \<Rightarrow> getAddress_no_argument a
       | [] \<Rightarrow> engine_call E GetMinAddress (p_min_address p)))"

subsection \<open>\<open>decompile_function\<close> (lines 25-42)\<close>

definition decompile_function :: "engine \<Rightarrow> func option \<Rightarrow> decompiled_function option action" where
  "decompile_function E function =
     (case function of
        None \<Rightarrow> returns None
      | Some f \<Rightarrow>
          seq (engine_call E (DecompileFunction f 30) (decompile E f 30)) (\<lambda>results.
            case results of
              None \<Rightarrow> returns None
            | Some r \<Rightarrow>
                if decompileCompleted r then
                  (case getDecompiledFunction r of
                     None \<Rightarrow> returns None
                   | Some c \<Rightarrow>
                       returns (Some \<lparr>df_name = fn_name f,
                                      df_entry_point = str_address E (fn_entry f),
                                      df_code = c,
                                      df_signature = fn_signature f,
                                      df_body = str_body E (fn_body f)\<rparr>))
                else returns None))"

subsection \<open>\<open>get_disassembly\<close> (lines 44-65)\<close>

text \<open>\<open>'%x' % n\<close> for \<open>n \<ge> 0\<close>: lowercase hexadecimal, no leading zeros.\<close>

definition hex_digit :: "nat \<Rightarrow> char" where
  "hex_digit d = ''0123456789abcdef'' ! (d mod 16)"

fun hex :: "nat \<Rightarrow> string" where
  "hex n = (if n < 16 then [hex_digit n] else hex (n div 16) @ [hex_digit (n mod 16)])"

declare hex.simps [simp del]

text \<open>
  \<open>'%02x' % v\<close>: the sign, then the digits padded with zeros to a total width of 2.
\<close>

definition fmt_02x :: "int \<Rightarrow> string" where
  "fmt_02x v =
     (if v < 0 then
        (let d = hex (nat (- v)) in ''-'' @ replicate (1 - length d) CHR ''0'' @ d)
      else
        (let d = hex (nat v) in replicate (2 - length d) CHR ''0'' @ d))"

text \<open>\<open>sep.join(parts)\<close>\<close>

fun join :: "string \<Rightarrow> string list \<Rightarrow> string" where
  "join sep [] = []"
| "join sep [x] = x"
| "join sep (x # y # ys) = x @ sep @ join sep (y # ys)"

text \<open>\<open>' '.join(['%02x' % (b & 0xff) for b in bs])\<close>\<close>

definition bytes_text :: "int list \<Rightarrow> string" where
  "bytes_text bs = join '' '' (map (\<lambda>b. fmt_02x (b AND 255)) bs)"

text \<open>
  The dictionary of lines 55-61, given what its two calls returned: \<open>operands\<close> from
  \<open>getDefaultOperandRepresentation\<close> and \<open>comment\<close> from \<open>listing.getComment\<close>.
\<close>

definition instruction_dict ::
  "engine \<Rightarrow> instr \<Rightarrow> string \<Rightarrow> string option \<Rightarrow> instruction_record"
where
  "instruction_dict E i operands comment =
     \<lparr>ir_address = str_address E (i_address i),
      ir_mnemonic = i_mnemonic i,
      ir_operands = operands,
      ir_bytes = bytes_text (i_bytes i),
      ir_comment = (case comment of None \<Rightarrow> [] | Some c \<Rightarrow> c)\<rparr>"

text \<open>The evaluation of that dictionary, lines 55-61, in the order of its entries.\<close>

definition instruction_entry ::
  "engine \<Rightarrow> program \<Rightarrow> instr \<Rightarrow> addr \<Rightarrow> instruction_record action"
where
  "instruction_entry E p i current_addr =
     seq (getDefaultOperandRepresentation_no_argument i) (\<lambda>operands.
     seq (engine_call E (GetComment current_addr) (p_eol_comments p current_addr)) (\<lambda>comment.
       returns (instruction_dict E i operands comment)))"

text \<open>The loop of lines 50-63, with the number of iterations left.\<close>

fun disassembly_loop ::
  "engine \<Rightarrow> program \<Rightarrow> nat \<Rightarrow> addr \<Rightarrow> instruction_record list \<Rightarrow> instruction_record list action"
where
  "disassembly_loop E p 0 current_addr instructions = returns instructions"
| "disassembly_loop E p (Suc k) current_addr instructions =
     seq (engine_call E (GetInstructionAt current_addr) (p_instructions p current_addr)) (\<lambda>instr.
       case instr of
         None \<Rightarrow> returns instructions
       | Some i \<Rightarrow>
           seq (instruction_entry E p i current_addr) (\<lambda>entry.
           seq (address_add p (i_address i) (i_length i)) (\<lambda>next_addr.
             disassembly_loop E p k next_addr (instructions @ [entry]))))"

text \<open>\<open>range(num_instructions)\<close> has \<open>nat num_instructions\<close> elements.\<close>

definition get_disassembly :: "engine \<Rightarrow> addr \<Rightarrow> int \<Rightarrow> instruction_record list action" where
  "get_disassembly E address num_instructions =
     seq (currentProgram_attr ''getListing'') (\<lambda>p.
       disassembly_loop E p (nat num_instructions) address [])"

subsection \<open>\<open>get_symbols\<close> (lines 67-81)\<close>

definition symbol_dict :: "engine \<Rightarrow> symbol \<Rightarrow> symbol_record" where
  "symbol_dict E s =
     \<lparr>sr_name = sym_name s,
      sr_address = str_address E (sym_address s),
      sr_type = sym_type s,
      sr_source = str_source_type (sym_source s)\<rparr>"

fun symbols_loop :: "engine \<Rightarrow> symbol list \<Rightarrow> symbol_record list \<Rightarrow> symbol_record list" where
  "symbols_loop E [] symbols = symbols"
| "symbols_loop E (s # rest) symbols =
     (if \<not> sym_external s then symbols_loop E rest (symbols @ [symbol_dict E s])
      else symbols_loop E rest symbols)"

definition get_symbols :: "engine \<Rightarrow> symbol_record list action" where
  "get_symbols E =
     seq (currentProgram_attr ''getSymbolTable'') (\<lambda>p.
     seq (engine_call E (GetAllSymbols False) (all_symbols p False)) (\<lambda>iterator.
       returns (symbols_loop E iterator [])))"

subsection \<open>\<open>get_functions\<close> (lines 83-96)\<close>

definition function_dict :: "engine \<Rightarrow> func \<Rightarrow> function_record" where
  "function_dict E f =
     \<lparr>fr_name = fn_name f,
      fr_entry_point = str_address E (fn_entry f),
      fr_signature = fn_signature f,
      fr_body_range = str_body E (fn_body f)\<rparr>"

fun functions_loop :: "engine \<Rightarrow> func list \<Rightarrow> function_record list \<Rightarrow> function_record list" where
  "functions_loop E [] functions = functions"
| "functions_loop E (f # rest) functions = functions_loop E rest (functions @ [function_dict E f])"

definition get_functions :: "engine \<Rightarrow> function_record list action" where
  "get_functions E =
     seq (currentProgram_attr ''getFunctionManager'') (\<lambda>p.
     seq (engine_call E (GetFunctions True) (all_functions p True)) (\<lambda>iterator.
       returns (functions_loop E iterator [])))"

subsection \<open>\<open>rename_symbol\<close> (lines 98-111)\<close>

definition setName :: "engine \<Rightarrow> nat \<Rightarrow> string \<Rightarrow> source_type \<Rightarrow> unit action" where
  "setName E symbol name src =
     seq (engine_call E (SetName symbol name src) ()) (\<lambda>_.
       modify_program (renamed symbol name src))"

text \<open>The body of the \<^verbatim>\<open>try\<close>, lines 101-109.\<close>

definition rename_symbol_try :: "engine \<Rightarrow> string \<Rightarrow> string \<Rightarrow> mutation_result action" where
  "rename_symbol_try E address_str new_name =
     seq (currentProgram_attr ''getAddressFactory'') (\<lambda>p.
     seq (engine_call E (GetAddress address_str) (address_of E address_str)) (\<lambda>address.
     seq (engine_call E (GetSymbols address) (symbols_at p address)) (\<lambda>symbols.
       case symbols of
         symbol # _ \<Rightarrow>
           seq (setName E symbol new_name USER_DEFINED) (\<lambda>_.
             returns \<lparr>success = True, message = ''Renamed to '' @ new_name\<rparr>)
       | [] \<Rightarrow> returns \<lparr>success = False, message = ''No symbol found at address''\<rparr>)))"

definition rename_symbol :: "engine \<Rightarrow> string \<Rightarrow> string \<Rightarrow> mutation_result action" where
  "rename_symbol E address_str new_name =
     try_except (rename_symbol_try E address_str new_name)
       (\<lambda>e. returns \<lparr>success = False, message = str_exn e\<rparr>)"

subsection \<open>\<open>set_data_type\<close> (lines 113-130)\<close>

definition createData :: "engine \<Rightarrow> addr \<Rightarrow> data_type \<Rightarrow> unit action" where
  "createData E address data_type =
     seq (engine_call E (CreateData address data_type) ()) (\<lambda>_.
       modify_program (data_created address data_type))"

text \<open>The body of the \<^verbatim>\<open>try\<close>, lines 116-128.\<close>

definition set_data_type_try :: "engine \<Rightarrow> string \<Rightarrow> string \<Rightarrow> mutation_result action" where
  "set_data_type_try E address_str type_str =
     seq (engine_call E DataTypeParser_import ()) (\<lambda>_.
     seq (currentProgram_attr ''getAddressFactory'') (\<lambda>p.
     seq (engine_call E (GetAddress address_str) (address_of E address_str)) (\<lambda>address.
     seq (engine_call E DataTypeParser_init ()) (\<lambda>parser.
     seq (engine_call E (DataTypeParser_parse type_str) (type_of E type_str)) (\<lambda>data_type.
     seq (engine_call E (GetDataAt address) (p_data p address)) (\<lambda>data.
       case data of
         Some _ \<Rightarrow>
           seq (createData E address data_type) (\<lambda>_.
             returns \<lparr>success = True, message = ''Set type to '' @ type_str\<rparr>)
       | None \<Rightarrow> returns \<lparr>success = False, message = ''No data at address''\<rparr>))))))"

definition set_data_type :: "engine \<Rightarrow> string \<Rightarrow> string \<Rightarrow> mutation_result action" where
  "set_data_type E address_str type_str =
     try_except (set_data_type_try E address_str type_str)
       (\<lambda>e. returns \<lparr>success = False, message = str_exn e\<rparr>)"

subsection \<open>\<open>analyze_program\<close> (lines 132-181)\<close>

text \<open>The body of the \<^verbatim>\<open>try\<close>, lines 135-172.\<close>

definition analyze_try :: "engine \<Rightarrow> report action" where
  "analyze_try E =
     seq (engine_call E DecompInterface_init ()) (\<lambda>decompiler.
     seq (engine_call E OpenProgram ()) (\<lambda>_.
     seq (get_entry_point E) (\<lambda>entry_addr.
     seq (currentProgram_attr ''getFunctionManager'') (\<lambda>p.
     seq (engine_call E (GetFunctionContaining entry_addr) (function_containing p entry_addr))
       (\<lambda>entry_function.
     seq (case entry_function of
            None \<Rightarrow> returns None
          | Some f \<Rightarrow> decompile_function E (Some f)) (\<lambda>entry_decompiled.
     seq (get_functions E) (\<lambda>functions.
     seq (get_symbols E) (\<lambda>symbols.
     seq (get_disassembly E entry_addr 100) (\<lambda>disassembly.
     seq (engine_call E GetName (p_name p)) (\<lambda>program_name.
     seq (engine_call E GetImageBase (p_image_base p)) (\<lambda>image_base.
     seq (engine_call E GetLanguageID (p_language p)) (\<lambda>language.
       returns (AnalysisReport
         \<lparr>ar_program_name = program_name,
          ar_entry_point = str_address E entry_addr,
          ar_entry_function = entry_decompiled,
          ar_functions = functions,
          ar_symbols = symbols,
          ar_disassembly = disassembly,
          ar_image_base = str_address E image_base,
          ar_language = language\<rparr>)))))))))))))"

text \<open>The handler, lines 173-181.\<close>

definition analyze_except :: "engine \<Rightarrow> exn \<Rightarrow> report action" where
  "analyze_except E e =
     seq (\<lambda>w. case currentProgram w of
                Some p \<Rightarrow> engine_call E GetName (p_name p) w
              | None \<Rightarrow> returns ''unknown'' w) (\<lambda>program_name.
       returns (ErrorReport True (str_exn e) (format_exc E e) program_name))"

definition analyze_program :: "engine \<Rightarrow> report action" where
  "analyze_program E = try_except (analyze_try E) (analyze_except E)"

subsection \<open>Main execution (lines 184-195)\<close>

text \<open>
  The run of the script: the exception that reached the interpreter's default handler, if
  any, and the lines printed before it.
\<close>

definition main :: "engine \<Rightarrow> world \<Rightarrow> (exn option \<times> string list) \<times> world" where
  "main E w =
     (case seq (engine_call E ConsoleTaskMonitor_init ()) (\<lambda>monitor. analyze_program E) w of
        (Inl e, w') \<Rightarrow> ((Some e, []), w')
      | (Inr result, w') \<Rightarrow>
          (case json_dumps E result of
             Inl e \<Rightarrow> ((Some e, [''__NEOGHIDRA_JSON_START__'']), w')
           | Inr document \<Rightarrow>
               ((None, [''__NEOGHIDRA_JSON_START__'', document, ''__NEOGHIDRA_JSON_END__'']), w')))"

section \<open>Notions the properties are stated with\<close>

text \<open>The engine calls issued between two moments of a run.\<close>

definition new_calls :: "world \<Rightarrow> world \<Rightarrow> call list" where
  "new_calls w w' = drop (length (calls w)) (calls w')"

text \<open>
  Where a statement stopped when exception \<open>e\<close> left it in world \<open>w'\<close>: at an attribute
  access on an absent program; at a call with too few arguments on what the engine call
  recorded last had returned (an entry point of line 20, an instruction of line 51); or at
  the engine call recorded last, which raised \<open>e\<close>. In each case no engine call was issued
  after the exception.
\<close>

definition aborted_at :: "engine \<Rightarrow> exn \<Rightarrow> world \<Rightarrow> bool" where
  "aborted_at E e w' =
     ((case e of
         AttributeError _ \<Rightarrow> currentProgram w' = None
       | TypeError _ \<Rightarrow>
           calls w' \<noteq> []
           \<and> (case last (calls w') of
                 GetExternalEntryPointIterator \<Rightarrow> True
               | GetInstructionAt _ \<Rightarrow> True
               | _ \<Rightarrow> False)
       | EngineError _ \<Rightarrow> False)
      \<or> (calls w' \<noteq> [] \<and> raises E (length (calls w') - 1) (last (calls w')) = Some e))"

text \<open>
  A statement that only queries the engine: it leaves the program as it found it, and when
  it raises, it stopped where the exception arose.
\<close>

definition reads_only :: "engine \<Rightarrow> 'a action \<Rightarrow> bool" where
  "reads_only E m =
     (\<forall>w. currentProgram (snd (m w)) = currentProgram w
        \<and> (\<forall>e. fst (m w) = Inl e \<longrightarrow> aborted_at E e (snd (m w))))"

text \<open>
  The engine calls among \<open>cs\<close> that a statement issuing them in this order, from the
  \<open>k\<close>-th call of the run on, gets to issue (up to and including the first that raises), and
  the exception of the first one that raises.
\<close>

fun issued :: "engine \<Rightarrow> nat \<Rightarrow> call list \<Rightarrow> call list" where
  "issued E k [] = []"
| "issued E k (c # cs) =
     (case raises E k c of Some e \<Rightarrow> [c] | None \<Rightarrow> c # issued E (Suc k) cs)"

fun first_fault :: "engine \<Rightarrow> nat \<Rightarrow> call list \<Rightarrow> exn option" where
  "first_fault E k [] = None"
| "first_fault E k (c # cs) =
     (case raises E k c of Some e \<Rightarrow> Some e | None \<Rightarrow> first_fault E (Suc k) cs)"

text \<open>The engine calls of \<open>set_data_type\<close> up to the data lookup, lines 116-123.\<close>

definition steps_to_lookup :: "engine \<Rightarrow> string \<Rightarrow> string \<Rightarrow> call list" where
  "steps_to_lookup E address_str type_str =
     [DataTypeParser_import, GetAddress address_str, DataTypeParser_init,
      DataTypeParser_parse type_str, GetDataAt (address_of E address_str)]"

section \<open>A small program and engine\<close>

text \<open>
  One function of ten bytes at 0x1000, which is also the entry point; two symbols bound at
  0x1000, a dynamic label at 0x1004, an external symbol; an integer at 0x2000.
\<close>

definition demo_instructions :: "addr \<Rightarrow> instr option" where
  "demo_instructions a =
     (if a = 4096 then
        Some \<lparr>i_address = 4096, i_mnemonic = ''PUSH'', i_bytes = [85], i_length = 1\<rparr>
      else if a = 4097 then
        Some \<lparr>i_address = 4097, i_mnemonic = ''MOV'', i_bytes = [72, - 119, - 27],
              i_length = 3\<rparr>
      else if a = 4100 then
        Some \<lparr>i_address = 4100, i_mnemonic = ''RET'', i_bytes = [- 61], i_length = 1\<rparr>
      else None)"

definition demo_entry :: func where
  "demo_entry =
     \<lparr>fn_name = ''entry'', fn_entry = 4096, fn_signature = ''void entry(void)'',
      fn_body = [(4096, 4105)]\<rparr>"

definition demo_symbols :: "symbol list" where
  "demo_symbols =
     [\<lparr>sym_name = ''entry'', sym_address = 4096, sym_type = ''Function'',
       sym_source = IMPORTED, sym_external = False, sym_dynamic = False\<rparr>,
      \<lparr>sym_name = ''printf'', sym_address = 0, sym_type = ''Function'',
       sym_source = IMPORTED, sym_external = True, sym_dynamic = False\<rparr>,
      \<lparr>sym_name = ''_start'', sym_address = 4096, sym_type = ''Label'',
       sym_source = ANALYSIS, sym_external = False, sym_dynamic = False\<rparr>,
      \<lparr>sym_name = ''LAB_00001004'', sym_address = 4100, sym_type = ''Label'',
       sym_source = DEFAULT, sym_external = False, sym_dynamic = True\<rparr>]"

definition demo_program :: program where
  "demo_program =
     \<lparr>p_name = ''demo.bin'', p_image_base = 4096, p_language = ''x86:LE:64:default'',
      p_min_address = 4096, p_max_address = 4294967295, p_entry_points = [4096],
      p_symbols = demo_symbols,
      p_functions = [demo_entry], p_instructions = demo_instructions,
      p_eol_comments = (\<lambda>a. if a = 4096 then Some ''save frame'' else None),
      p_data = (\<lambda>a. if a = 8192 then Some (DataType ''int'') else None)\<rparr>"

text \<open>
  The same image without an entry in the external entry-point table, and a data-only
  view of it that starts at 0x2000, where no instruction is found.
\<close>

definition stripped_program :: program where
  "stripped_program = demo_program\<lparr>p_entry_points := []\<rparr>"

definition data_program :: program where
  "data_program = demo_program\<lparr>p_entry_points := [], p_min_address := 8192\<rparr>"

text \<open>An engine that answers every call; \<open>faults\<close> replaces its fault table.\<close>

definition demo_engine :: engine where
  "demo_engine =
     \<lparr>raises = (\<lambda>k c. None),
      address_of = (\<lambda>s. if s = ''00001000'' then 4096 else if s = ''00002000'' then 8192
                         else if s = ''00003000'' then 12288 else 0),
      type_of = DataType,
      decompile = (\<lambda>f t. Some \<lparr>decompileCompleted = True,
                               getDecompiledFunction = Some ''void entry(void) { return; }''\<rparr>),
      str_address = hex,
      str_body = (\<lambda>rs. concat (map (\<lambda>(lo, hi). ''['' @ hex lo @ '', '' @ hex hi @ '']'') rs)),
      format_exc = (\<lambda>e. ''Traceback (most recent call last): '' @ str_exn e),
      json_dumps = (\<lambda>r. Inr (case r of AnalysisReport a \<Rightarrow> ''{program_name: ...}''
                                | ErrorReport _ m _ _ \<Rightarrow> ''{error: true, message: '' @ m @ ''}''))\<rparr>"

definition faults :: "(nat \<Rightarrow> call \<Rightarrow> exn option) \<Rightarrow> engine" where
  "faults f = demo_engine\<lparr>raises := f\<rparr>"

text \<open>Fault tables: the type parser rejects every text; the decompiler dies; the program
  has been closed, so that its name cannot be read; the symbol table refuses every rename;
  the import of line 116 fails; the listing cannot be read.\<close>

definition import_fails :: "nat \<Rightarrow> call \<Rightarrow> exn option" where
  "import_fails k c =
     (case c of DataTypeParser_import \<Rightarrow> Some (EngineError ''cannot import name DataTypeParser'')
      | _ \<Rightarrow> None)"



definition unknown_type :: "nat \<Rightarrow> call \<Rightarrow> exn option" where
  "unknown_type k c =
     (case c of DataTypeParser_parse t \<Rightarrow> Some (EngineError ''unknown type'') | _ \<Rightarrow> None)"

definition decompiler_died :: "nat \<Rightarrow> call \<Rightarrow> exn option" where
  "decompiler_died k c =
     (case c of DecompileFunction f t \<Rightarrow> Some (EngineError ''decompiler process died'')
      | _ \<Rightarrow> None)"

definition program_closed :: "nat \<Rightarrow> call \<Rightarrow> exn option" where
  "program_closed k c = (case c of GetName \<Rightarrow> Some (EngineError ''program closed'') | _ \<Rightarrow> None)"

definition duplicate_name :: "nat \<Rightarrow> call \<Rightarrow> exn option" where
  "duplicate_name k c =
     (case c of SetName i name src \<Rightarrow> Some (EngineError ''duplicate name'') | _ \<Rightarrow> None)"

text \<open>An engine whose decompiler dies and whose reports cannot be serialized.\<close>

definition unserializable :: engine where
  "unserializable =
     (faults decompiler_died)\<lparr>json_dumps := (\<lambda>r. Inl (EngineError ''not serializable''))\<rparr>"

text \<open>An engine whose decompiler completes with a decompiled function of empty text.\<close>

definition empty_output :: engine where
  "empty_output =
     demo_engine\<lparr>decompile := (\<lambda>f t. Some \<lparr>decompileCompleted = True,
                                             getDecompiledFunction = Some []\<rparr>)\<rparr>"

definition demo_world :: world where
  "demo_world = \<lparr>currentProgram = Some demo_program, calls = []\<rparr>"

definition stripped_world :: world where
  "stripped_world = \<lparr>currentProgram = Some stripped_program, calls = []\<rparr>"

definition data_world :: world where
  "data_world = \<lparr>currentProgram = Some data_program, calls = []\<rparr>"

definition no_program :: world where
  "no_program = \<lparr>currentProgram = None, calls = []\<rparr>"

section \<open>Sequencing lemmas\<close>

lemma seq_engine_call:
  "seq (engine_call E c v) f w =
     (case raises E (length (calls w)) c of
        Some e \<Rightarrow> (Inl e, w\<lparr>calls := calls w @ [c]\<rparr>)
      | None \<Rightarrow> f v (w\<lparr>calls := calls w @ [c]\<rparr>))"
  by (simp add: seq_def engine_call_def split: option.splits)

lemma seq_currentProgram_attr:
  "seq (currentProgram_attr attr) f w =
     (case currentProgram w of
        None \<Rightarrow> (Inl (AttributeError attr), w)
      | Some p \<Rightarrow> f p w)"
  by (simp add: seq_def currentProgram_attr_def split: option.splits)

lemma seq_modify_program:
  "seq (modify_program g) f w = f () (w\<lparr>currentProgram := map_option g (currentProgram w)\<rparr>)"
  by (simp add: seq_def modify_program_def)

lemma seq_assoc: "seq (seq m f) g = seq m (\<lambda>x. seq (f x) g)"
  by (rule ext) (simp add: seq_def split: prod.splits sum.splits)

lemma seq_returns: "seq (returns v) f w = f v w"
  by (simp add: seq_def returns_def)

lemma seq_raise_exn: "seq (raise_exn e) f w = (Inl e, w)"
  by (simp add: seq_def raise_exn_def)

lemmas seq_simps =
  seq_assoc seq_engine_call seq_currentProgram_attr seq_modify_program seq_returns seq_raise_exn

lemmas action_defs =
  returns_def raise_exn_def seq_def try_except_def currentProgram_attr_def engine_call_def
  modify_program_def

lemmas demo_defs =
  demo_world_def stripped_world_def data_world_def no_program_def demo_program_def
  stripped_program_def data_program_def demo_engine_def faults_def demo_symbols_def
  demo_entry_def demo_instructions_def

section \<open>Entry-point resolution\<close>




section \<open>Decompilation of one function\<close>

text \<open>
  C8, as stated, fails: line 34 tests the decompiled-function object, never its text. A
  run that completed with an empty text gives a dictionary whose code is empty.
\<close>

theorem decompile_function_empty_code_counterexample:
  "decompile empty_output demo_entry 30 =
     Some \<lparr>decompileCompleted = True, getDecompiledFunction = Some []\<rparr>
   \<and> fst (decompile_function empty_output (Some demo_entry) demo_world) =
       Inr (Some \<lparr>df_name = ''entry'', df_entry_point = ''1000'', df_code = [],
                  df_signature = ''void entry(void)'', df_body = ''[1000, 1009]''\<rparr>)"
  by (simp add: decompile_function_def seq_simps returns_def empty_output_def demo_defs
        hex.simps hex_digit_def)

text \<open>
  C8, amended. For an absent function \<open>decompile_function\<close> returns \<open>None\<close> at once and issues
  no engine call (the world, with its record of calls, is unchanged). When the decompiler
  call returns no results object, results that did not complete (the status a timed-out
  or cancelled run reports), or results without a decompiled-function object, the value
  is \<open>None\<close> and nothing is raised. The dictionary with name, entry point, code, signature
  and body is returned exactly when the run completed and a decompiled-function object is
  present, whatever its text: the text is not tested and may be empty. An exception of
  the decompiler call itself is not caught.
\<close>

theorem decompile_function_absent_or_complete:
  "decompile_function E None w = (Inr None, w)
   \<and> (raises E (length (calls w)) (DecompileFunction f 30) = None
       \<and> (decompile E f 30 = None
          \<or> (\<exists>r. decompile E f 30 = Some r
                \<and> (\<not> decompileCompleted r \<or> getDecompiledFunction r = None))) \<longrightarrow>
         fst (decompile_function E (Some f) w) = Inr None)
   \<and> (raises E (length (calls w)) (DecompileFunction f 30) = None
       \<and> decompile E f 30 = Some r \<and> decompileCompleted r
       \<and> getDecompiledFunction r = Some c \<longrightarrow>
         fst (decompile_function E (Some f) w) =
           Inr (Some \<lparr>df_name = fn_name f, df_entry_point = str_address E (fn_entry f),
                      df_code = c, df_signature = fn_signature f,
                      df_body = str_body E (fn_body f)\<rparr>))
   \<and> (fst (decompile_function E function w) = Inr (Some d) \<longrightarrow>
         (\<exists>g r'. function = Some g \<and> decompile E g 30 = Some r' \<and> decompileCompleted r'
            \<and> getDecompiledFunction r' = Some (df_code d)
            \<and> d = \<lparr>df_name = fn_name g, df_entry_point = str_address E (fn_entry g),
                     df_code = df_code d, df_signature = fn_signature g,
                     df_body = str_body E (fn_body g)\<rparr>))
   \<and> (raises E (length (calls w)) (DecompileFunction f 30) = Some e \<longrightarrow>
         fst (decompile_function E (Some f) w) = Inl e)"
proof (intro conjI impI)
  show "decompile_function E None w = (Inr None, w)"
    by (simp add: decompile_function_def returns_def)
next
  assume "raises E (length (calls w)) (DecompileFunction f 30) = None
       \<and> (decompile E f 30 = None
          \<or> (\<exists>r. decompile E f 30 = Some r
                \<and> (\<not> decompileCompleted r \<or> getDecompiledFunction r = None)))"
  then show "fst (decompile_function E (Some f) w) = Inr None"
    by (auto simp: decompile_function_def action_defs)
next
  assume "raises E (length (calls w)) (DecompileFunction f 30) = None
       \<and> decompile E f 30 = Some r \<and> decompileCompleted r
       \<and> getDecompiledFunction r = Some c"
  then show "fst (decompile_function E (Some f) w) =
           Inr (Some \<lparr>df_name = fn_name f, df_entry_point = str_address E (fn_entry f),
                      df_code = c, df_signature = fn_signature f,
                      df_body = str_body E (fn_body f)\<rparr>)"
    by (simp add: decompile_function_def action_defs)
next
  assume "fst (decompile_function E function w) = Inr (Some d)"
  then show "\<exists>g r'. function = Some g \<and> decompile E g 30 = Some r' \<and> decompileCompleted r'
            \<and> getDecompiledFunction r' = Some (df_code d)
            \<and> d = \<lparr>df_name = fn_name g, df_entry_point = str_address E (fn_entry g),
                     df_code = df_code d, df_signature = fn_signature g,
                     df_body = str_body E (fn_body g)\<rparr>"
    by (auto simp: decompile_function_def action_defs split: option.splits if_splits)
next
  assume "raises E (length (calls w)) (DecompileFunction f 30) = Some e"
  then show "fst (decompile_function E (Some f) w) = Inl e"
    by (simp add: decompile_function_def action_defs)
qed

theorem decompile_function_absent_or_complete_witness:
  "decompile_function demo_engine None demo_world = (Inr None, demo_world)
   \<and> fst (decompile_function
            (demo_engine\<lparr>decompile := (\<lambda>f t. Some \<lparr>decompileCompleted = False,
                                                     getDecompiledFunction = None\<rparr>)\<rparr>)
            (Some demo_entry) demo_world) = Inr None
   \<and> fst (decompile_function demo_engine (Some demo_entry) demo_world) =
       Inr (Some \<lparr>df_name = ''entry'', df_entry_point = ''1000'',
                  df_code = ''void entry(void) { return; }'',
                  df_signature = ''void entry(void)'', df_body = ''[1000, 1009]''\<rparr>)
   \<and> fst (decompile_function (faults decompiler_died) (Some demo_entry) demo_world) =
       Inl (EngineError ''decompiler process died'')"
  using decompile_function_absent_or_complete
      [of demo_engine demo_world demo_entry
          "\<lparr>decompileCompleted = True,
            getDecompiledFunction = Some ''void entry(void) { return; }''\<rparr>"
          "''void entry(void) { return; }''" None]
    decompile_function_absent_or_complete
      [of "demo_engine\<lparr>decompile := (\<lambda>f t. Some \<lparr>decompileCompleted = False,
                                                   getDecompiledFunction = None\<rparr>)\<rparr>"
          demo_world demo_entry]
    decompile_function_absent_or_complete
      [of "faults decompiler_died" demo_world demo_entry _ _ _ _
          "EngineError ''decompiler process died''"]
  by (simp add: demo_defs hex.simps hex_digit_def decompiler_died_def)

section \<open>Byte rendering\<close>

lemma mask_byte: "(b::int) AND 255 = b mod 256"
  using take_bit_eq_mask [of 8 b] by (simp add: take_bit_eq_mod mask_eq_exp_minus_1)

lemma hex_one_digit: "n < 16 \<Longrightarrow> hex n = [hex_digit n]"
  by (simp add: hex.simps)

lemma hex_two_digits:
  "16 \<le> n \<Longrightarrow> n < 256 \<Longrightarrow> hex n = [hex_digit (n div 16), hex_digit (n mod 16)]"
  by (subst hex.simps) (simp add: hex_one_digit less_mult_imp_div_less)

lemma hex_digit_zero: "hex_digit 0 = CHR ''0''"
  by (simp add: hex_digit_def)

lemma fmt_02x_byte:
  assumes "0 \<le> v" and "v < 256"
  shows "fmt_02x v = [hex_digit (nat v div 16), hex_digit (nat v mod 16)]"
proof (cases "nat v < 16")
  case True
  with assms show ?thesis by (simp add: fmt_02x_def hex_one_digit Let_def hex_digit_zero)
next
  case False
  with assms show ?thesis by (simp add: fmt_02x_def Let_def hex_two_digits)
qed

lemma hex_digit_lowercase: "hex_digit d \<in> set ''0123456789abcdef''"
  unfolding hex_digit_def by (rule nth_mem) simp

text \<open>
  C9. In every instruction dictionary the bytes are rendered one by one as exactly two
  lowercase hexadecimal digits and joined with single spaces; the value rendered for a
  byte \<open>b\<close> is \<open>b & 0xff\<close>, which lies between 0 and 255 whatever the sign of \<open>b\<close>.
\<close>

theorem bytes_rendering:
  "ir_bytes (instruction_dict E i operands comment) =
     join '' '' (map (\<lambda>b. [hex_digit (nat (b AND 255) div 16), hex_digit (nat (b AND 255) mod 16)])
                  (i_bytes i))
   \<and> fmt_02x (b AND 255) = [hex_digit (nat (b AND 255) div 16), hex_digit (nat (b AND 255) mod 16)]
   \<and> 0 \<le> b AND 255 \<and> b AND 255 \<le> 255 \<and> b AND 255 = b mod 256
   \<and> hex_digit d \<in> set ''0123456789abcdef''"
proof -
  have range: "0 \<le> c AND 255 \<and> c AND 255 < 256" for c :: int
    by (simp add: mask_byte)
  then have pair: "fmt_02x (c AND 255) =
      [hex_digit (nat (c AND 255) div 16), hex_digit (nat (c AND 255) mod 16)]" for c :: int
    by (simp add: fmt_02x_byte)
  have "ir_bytes (instruction_dict E i operands comment) =
     join '' '' (map (\<lambda>b. [hex_digit (nat (b AND 255) div 16), hex_digit (nat (b AND 255) mod 16)])
                  (i_bytes i))"
    by (simp add: instruction_dict_def bytes_text_def pair)
  moreover from range [of b] have "0 \<le> b AND 255" and "b AND 255 \<le> 255" by simp_all
  moreover note pair [of b] mask_byte [of b] hex_digit_lowercase [of d]
  ultimately show ?thesis by blast
qed

theorem bytes_rendering_witness:
  "ir_bytes (instruction_dict demo_engine
       \<lparr>i_address = 4097, i_mnemonic = ''MOV'', i_bytes = [72, - 119, - 27], i_length = 3\<rparr>
       ''RBP,RSP'' None) = ''48 89 e5''
   \<and> fmt_02x (- 1 AND 255) = ''ff''"
  using bytes_rendering [of demo_engine
       "\<lparr>i_address = 4097, i_mnemonic = ''MOV'', i_bytes = [72, - 119, - 27], i_length = 3\<rparr>"
       "''RBP,RSP''" None "- 1" 0]
  by (simp add: mask_byte hex_digit_def)

section \<open>Symbol enumeration\<close>

lemma symbols_loop_eq:
  "symbols_loop E xs acc = acc @ map (symbol_dict E) (filter (\<lambda>s. \<not> sym_external s) xs)"
  by (induction xs arbitrary: acc) simp_all

text \<open>
  C5, as stated, fails: the enumeration is \<open>getAllSymbols(False)\<close>, which leaves the dynamic
  symbols out before the script filters on \<open>isExternal()\<close>. In the small program the label
  at 0x1004 is dynamic and not external, and has no record.
\<close>

theorem get_symbols_dynamic_counterexample:
  "\<not> sym_external (demo_symbols ! 3)
   \<and> demo_symbols ! 3 \<in> set (p_symbols demo_program)
   \<and> fst (get_symbols demo_engine demo_world) =
       Inr [symbol_dict demo_engine (demo_symbols ! 0), symbol_dict demo_engine (demo_symbols ! 2)]
   \<and> symbol_dict demo_engine (demo_symbols ! 3)
       \<notin> set [symbol_dict demo_engine (demo_symbols ! 0), symbol_dict demo_engine (demo_symbols ! 2)]"
  by (simp add: get_symbols_def seq_simps returns_def all_symbols_def demo_defs symbol_dict_def)

text \<open>
  C5, amended. With a program at hand and an engine that answers the enumeration,
  \<open>get_symbols\<close> returns, in the engine's order, one record for every symbol of the table
  that is neither dynamic nor external.
\<close>

theorem get_symbols_enumerates:
  assumes "currentProgram w = Some p"
    and "raises E (length (calls w)) (GetAllSymbols False) = None"
  shows "fst (get_symbols E w) =
           Inr (map (symbol_dict E)
                  (filter (\<lambda>s. \<not> sym_dynamic s \<and> \<not> sym_external s) (p_symbols p)))"
  using assms
  by (simp add: get_symbols_def action_defs symbols_loop_eq all_symbols_def conj_commute)

theorem get_symbols_enumerates_witness:
  "fst (get_symbols demo_engine demo_world) =
     Inr [\<lparr>sr_name = ''entry'', sr_address = ''1000'', sr_type = ''Function'',
           sr_source = ''IMPORTED''\<rparr>,
          \<lparr>sr_name = ''_start'', sr_address = ''1000'', sr_type = ''Label'',
           sr_source = ''ANALYSIS''\<rparr>]"
  using get_symbols_enumerates [of demo_world demo_program demo_engine]
  by (simp add: demo_defs symbol_dict_def str_source_type_def hex.simps hex_digit_def)

section \<open>Setting a data type\<close>

lemma set_data_type_to_lookup:
  assumes "currentProgram w = Some p" and "p_data p (address_of E address_str) = None"
  shows "set_data_type E address_str type_str w =
     (Inr \<lparr>success = False,
           message =
             (case first_fault E (length (calls w)) (steps_to_lookup E address_str type_str) of
                Some e \<Rightarrow> str_exn e
              | None \<Rightarrow> ''No data at address'')\<rparr>,
      w\<lparr>calls := calls w
                 @ issued E (length (calls w)) (steps_to_lookup E address_str type_str)\<rparr>)"
  using assms
  by (cases "raises E (length (calls w)) DataTypeParser_import";
      cases "raises E (Suc (length (calls w))) (GetAddress address_str)";
      cases "raises E (Suc (Suc (length (calls w)))) DataTypeParser_init";
      cases "raises E (Suc (Suc (Suc (length (calls w))))) (DataTypeParser_parse type_str)";
      cases "raises E (Suc (Suc (Suc (Suc (length (calls w))))))
               (GetDataAt (address_of E address_str))")
     (simp_all add: set_data_type_def set_data_type_try_def try_except_def seq_simps returns_def
        steps_to_lookup_def)

text \<open>
  C1, as stated, fails. The answer \<open>No data at address\<close> is given only after the import of
  line 116, the address factory, the parser's constructor, the type parse and the data
  lookup have all succeeded: when the import fails, the message at an address without
  data is the import's. And the type text is parsed (line 120) before the listing is
  asked for the data (line 123): where the import succeeds the parser is called at an
  address without data all the same, and a type text it rejects gives the parser's
  message.
\<close>

theorem set_data_type_parses_first_counterexample:
  "p_data demo_program (address_of demo_engine ''00001000'') = None
   \<and> set_data_type (faults import_fails) ''00001000'' ''int'' demo_world =
       (Inr \<lparr>success = False, message = ''cannot import name DataTypeParser''\<rparr>,
        demo_world\<lparr>calls := [DataTypeParser_import]\<rparr>)
   \<and> set_data_type (faults unknown_type) ''00001000'' ''no such type'' demo_world =
       (Inr \<lparr>success = False, message = ''unknown type''\<rparr>,
        demo_world\<lparr>calls := [DataTypeParser_import, GetAddress ''00001000'', DataTypeParser_init,
                               DataTypeParser_parse ''no such type'']\<rparr>)
   \<and> set_data_type demo_engine ''00001000'' ''int'' demo_world =
       (Inr \<lparr>success = False, message = ''No data at address''\<rparr>,
        demo_world\<lparr>calls := [DataTypeParser_import, GetAddress ''00001000'', DataTypeParser_init,
                               DataTypeParser_parse ''int'', GetDataAt 4096]\<rparr>)"
  by (simp add: set_data_type_def set_data_type_try_def try_except_def seq_simps returns_def
        demo_defs unknown_type_def import_fails_def str_exn_def)

text \<open>
  C1, amended. When the program is present and holds no data at the address the address
  factory gives for the address text, \<open>set_data_type\<close> returns \<open>success = False\<close> and leaves the
  program unchanged. It issues its engine calls in the order import, address factory,
  parser constructor, type parse, data lookup, and stops at the first that raises: the
  message is the text of that exception, and \<open>No data at address\<close> when none raises. The
  type parser is therefore called before the data lookup: whenever the data lookup is
  issued, and in particular whenever all five calls succeed, the type parse has been
  issued before it.
\<close>

theorem set_data_type_no_data:
  assumes "currentProgram w = Some p"
    and "p_data p (address_of E address_str) = None"
  shows "fst (set_data_type E address_str type_str w) =
           Inr \<lparr>success = False,
                message =
                  (case first_fault E (length (calls w))
                          (steps_to_lookup E address_str type_str) of
                     Some e \<Rightarrow> str_exn e
                   | None \<Rightarrow> ''No data at address'')\<rparr>
       \<and> new_calls w (snd (set_data_type E address_str type_str w)) =
           issued E (length (calls w)) (steps_to_lookup E address_str type_str)
       \<and> (first_fault E (length (calls w)) (steps_to_lookup E address_str type_str) = None \<longrightarrow>
            new_calls w (snd (set_data_type E address_str type_str w)) =
              [DataTypeParser_import, GetAddress address_str, DataTypeParser_init,
               DataTypeParser_parse type_str, GetDataAt (address_of E address_str)])
       \<and> (GetDataAt (address_of E address_str)
             \<in> set (new_calls w (snd (set_data_type E address_str type_str w))) \<longrightarrow>
            take 4 (new_calls w (snd (set_data_type E address_str type_str w))) =
              [DataTypeParser_import, GetAddress address_str, DataTypeParser_init,
               DataTypeParser_parse type_str])
       \<and> currentProgram (snd (set_data_type E address_str type_str w)) = currentProgram w"
proof -
  note run = set_data_type_to_lookup [OF assms, of type_str]
  have calls: "new_calls w (snd (set_data_type E address_str type_str w)) =
      issued E (length (calls w)) (steps_to_lookup E address_str type_str)"
    by (simp add: run new_calls_def)
  have all: "first_fault E k cs = None \<Longrightarrow> issued E k cs = cs" for k cs
    by (induction cs arbitrary: k) (simp_all split: option.splits)
  have before: "GetDataAt (address_of E address_str)
        \<in> set (issued E (length (calls w)) (steps_to_lookup E address_str type_str)) \<Longrightarrow>
      take 4 (issued E (length (calls w)) (steps_to_lookup E address_str type_str)) =
        [DataTypeParser_import, GetAddress address_str, DataTypeParser_init,
         DataTypeParser_parse type_str]"
    by (simp add: steps_to_lookup_def split: option.splits)
  have steps: "steps_to_lookup E address_str type_str =
      [DataTypeParser_import, GetAddress address_str, DataTypeParser_init,
       DataTypeParser_parse type_str, GetDataAt (address_of E address_str)]"
    by (simp add: steps_to_lookup_def)
  have result: "fst (set_data_type E address_str type_str w) =
           Inr \<lparr>success = False,
                message =
                  (case first_fault E (length (calls w))
                          (steps_to_lookup E address_str type_str) of
                     Some e \<Rightarrow> str_exn e
                   | None \<Rightarrow> ''No data at address'')\<rparr>"
    by (simp add: run)
  have complete:
    "first_fault E (length (calls w)) (steps_to_lookup E address_str type_str) = None \<longrightarrow>
       new_calls w (snd (set_data_type E address_str type_str w)) =
         [DataTypeParser_import, GetAddress address_str, DataTypeParser_init,
          DataTypeParser_parse type_str, GetDataAt (address_of E address_str)]"
    using all [of "length (calls w)" "steps_to_lookup E address_str type_str"]
    by (simp add: calls steps [symmetric])
  have parsed_first:
    "GetDataAt (address_of E address_str)
       \<in> set (new_calls w (snd (set_data_type E address_str type_str w))) \<longrightarrow>
     take 4 (new_calls w (snd (set_data_type E address_str type_str w))) =
       [DataTypeParser_import, GetAddress address_str, DataTypeParser_init,
        DataTypeParser_parse type_str]"
    using before by (simp add: calls)
  have unchanged:
    "currentProgram (snd (set_data_type E address_str type_str w)) = currentProgram w"
    by (simp add: run)
  from result calls complete parsed_first unchanged show ?thesis by blast
qed

theorem set_data_type_no_data_witness:
  "fst (set_data_type demo_engine ''00001000'' ''int'' demo_world) =
     Inr \<lparr>success = False, message = ''No data at address''\<rparr>
   \<and> new_calls demo_world (snd (set_data_type demo_engine ''00001000'' ''int'' demo_world)) =
       [DataTypeParser_import, GetAddress ''00001000'', DataTypeParser_init,
        DataTypeParser_parse ''int'', GetDataAt 4096]
   \<and> fst (set_data_type (faults unknown_type) ''00001000'' ''no such type'' demo_world) =
     Inr \<lparr>success = False, message = ''unknown type''\<rparr>
   \<and> fst (set_data_type (faults import_fails) ''00001000'' ''int'' demo_world) =
     Inr \<lparr>success = False, message = ''cannot import name DataTypeParser''\<rparr>
   \<and> new_calls demo_world
        (snd (set_data_type (faults import_fails) ''00001000'' ''int'' demo_world)) =
       [DataTypeParser_import]"
proof -
  have cp: "currentProgram demo_world = Some demo_program"
    by (simp add: demo_world_def)
  have none: "p_data demo_program (address_of demo_engine ''00001000'') = None"
    "p_data demo_program (address_of (faults unknown_type) ''00001000'') = None"
    "p_data demo_program (address_of (faults import_fails) ''00001000'') = None"
    by (simp_all add: demo_program_def demo_engine_def faults_def)
  from set_data_type_no_data [OF cp none(1), of "''int''"]
    set_data_type_no_data [OF cp none(2), of "''no such type''"]
    set_data_type_no_data [OF cp none(3), of "''int''"]
  show ?thesis
    by (simp add: steps_to_lookup_def demo_world_def demo_engine_def faults_def unknown_type_def
          import_fails_def str_exn_def)
qed

text \<open>
  C10. \<open>set_data_type\<close> always returns a result. Whenever the result is a failure the
  program is as it was before the call. A \<open>createData\<close> call is issued only for the address
  the address text resolved to and the type the type text parsed to, and only when data
  was found at that address; in particular, when the address text or the type text is
  rejected, or no data is present at the address, no \<open>createData\<close> call is issued, the
  program is unchanged and the result is a failure. (Here \<open>n\<close> is the number of engine
  calls issued before the call of \<open>set_data_type\<close>.)
\<close>

theorem set_data_type_frame:
  assumes run: "set_data_type E address_str type_str w = (res, w')"
    and n: "n = length (calls w)"
  shows "(\<exists>r. res = Inr r
            \<and> (\<not> success r \<longrightarrow> currentProgram w' = currentProgram w)
            \<and> (success r \<longrightarrow>
                 (\<exists>p. currentProgram w = Some p
                    \<and> p_data p (address_of E address_str) \<noteq> None
                    \<and> currentProgram w' =
                        Some (data_created (address_of E address_str) (type_of E type_str) p))))
       \<and> (CreateData a dt \<in> set (new_calls w w') \<longrightarrow>
            a = address_of E address_str \<and> dt = type_of E type_str
            \<and> raises E (n + 1) (GetAddress address_str) = None
            \<and> raises E (n + 3) (DataTypeParser_parse type_str) = None
            \<and> (\<exists>p. currentProgram w = Some p \<and> p_data p a \<noteq> None))
       \<and> (raises E (n + 1) (GetAddress address_str) \<noteq> None
            \<or> raises E (n + 3) (DataTypeParser_parse type_str) \<noteq> None
            \<or> (\<exists>p. currentProgram w = Some p \<and> p_data p (address_of E address_str) = None) \<longrightarrow>
            (\<forall>a dt. CreateData a dt \<notin> set (new_calls w w'))
            \<and> currentProgram w' = currentProgram w
            \<and> (\<exists>r. res = Inr r \<and> \<not> success r))"
proof -
  have r: "res = fst (set_data_type E address_str type_str w)"
    and w: "w' = snd (set_data_type E address_str type_str w)"
    using run by simp_all
  show ?thesis
    unfolding r w n
    by (simp add: set_data_type_def set_data_type_try_def createData_def try_except_def
          seq_simps returns_def
          new_calls_def eval_nat_numeral split: option.splits)
qed


theorem set_data_type_frame_witness:
  "fst (set_data_type demo_engine ''00002000'' ''char'' demo_world) =
     Inr \<lparr>success = True, message = ''Set type to char''\<rparr>
   \<and> currentProgram (snd (set_data_type demo_engine ''00002000'' ''char'' demo_world)) =
       Some (data_created 8192 (DataType ''char'') demo_program)
   \<and> CreateData 8192 (DataType ''char'')
       \<in> set (new_calls demo_world (snd (set_data_type demo_engine ''00002000'' ''char'' demo_world)))
   \<and> fst (set_data_type (faults unknown_type) ''00002000'' ''char'' demo_world) =
     Inr \<lparr>success = False, message = ''unknown type''\<rparr>
   \<and> currentProgram (snd (set_data_type (faults unknown_type) ''00002000'' ''char'' demo_world)) =
       Some demo_program"
  using set_data_type_frame
      [of demo_engine "''00002000''" "''char''" demo_world
          "fst (set_data_type demo_engine ''00002000'' ''char'' demo_world)"
          "snd (set_data_type demo_engine ''00002000'' ''char'' demo_world)"
          0 8192 "DataType ''char''"]
    set_data_type_frame
      [of "faults unknown_type" "''00002000''" "''char''" demo_world
          "fst (set_data_type (faults unknown_type) ''00002000'' ''char'' demo_world)"
          "snd (set_data_type (faults unknown_type) ''00002000'' ''char'' demo_world)"
          0 8192 "DataType ''char''"]
  by (simp add: set_data_type_def set_data_type_try_def createData_def try_except_def seq_simps
        returns_def new_calls_def demo_defs unknown_type_def str_exn_def)


section \<open>The disassembly walk\<close>

lemma disassembly_loop_Suc:
  "disassembly_loop E p (Suc k) current_addr instructions w =
     (case raises E (length (calls w)) (GetInstructionAt current_addr) of
        Some e \<Rightarrow> (Inl e, w\<lparr>calls := calls w @ [GetInstructionAt current_addr]\<rparr>)
      | None \<Rightarrow>
          (case p_instructions p current_addr of
             None \<Rightarrow> (Inr instructions, w\<lparr>calls := calls w @ [GetInstructionAt current_addr]\<rparr>)
           | Some i \<Rightarrow>
               (Inl (TypeError ''getDefaultOperandRepresentation(): expected 1 args; got 0''),
                w\<lparr>calls := calls w @ [GetInstructionAt current_addr]\<rparr>)))"
  by (simp add: instruction_entry_def getDefaultOperandRepresentation_no_argument_def seq_simps
        returns_def split: option.splits)

lemma get_disassembly_run:
  "get_disassembly E start n w =
     (case currentProgram w of
        None \<Rightarrow> (Inl (AttributeError ''getListing''), w)
      | Some p \<Rightarrow>
          if n \<le> 0 then (Inr [], w)
          else
            (case raises E (length (calls w)) (GetInstructionAt start) of
               Some e \<Rightarrow> (Inl e, w\<lparr>calls := calls w @ [GetInstructionAt start]\<rparr>)
             | None \<Rightarrow>
                 (case p_instructions p start of
                    None \<Rightarrow> (Inr [], w\<lparr>calls := calls w @ [GetInstructionAt start]\<rparr>)
                  | Some i \<Rightarrow>
                      (Inl (TypeError
                              ''getDefaultOperandRepresentation(): expected 1 args; got 0''),
                       w\<lparr>calls := calls w @ [GetInstructionAt start]\<rparr>))))"
proof (cases "nat n")
  case 0
  then have "n \<le> 0" by simp
  with 0 show ?thesis
    by (simp add: get_disassembly_def seq_simps returns_def split: option.splits)
next
  case (Suc k)
  then have "\<not> n \<le> 0" by simp
  with Suc show ?thesis
    by (simp add: get_disassembly_def seq_simps disassembly_loop_Suc returns_def
          del: disassembly_loop.simps split: option.splits)
qed




section \<open>Renaming a symbol\<close>

lemma symbols_at_first:
  assumes "symbols_at p a = i # rest"
  shows "i < length (p_symbols p) \<and> sym_address (p_symbols p ! i) = a
       \<and> (\<forall>j<i. sym_address (p_symbols p ! j) \<noteq> a)"
proof -
  let ?P = "\<lambda>i. sym_address (p_symbols p ! i) = a"
  let ?n = "length (p_symbols p)"
  from assms obtain us vs where
    split: "[0 ..< ?n] = us @ i # vs" and before: "\<forall>u\<in>set us. \<not> ?P u" and here: "?P i"
    unfolding symbols_at_def filter_eq_Cons_iff by blast
  have "length [0 ..< ?n] = length (us @ i # vs)"
    by (rule arg_cong [OF split])
  then have len: "length us < ?n" by simp
  have "[0 ..< ?n] ! length us = (us @ i # vs) ! length us"
    by (rule arg_cong [OF split])
  with len have i: "length us = i" by simp
  have "take (length us) [0 ..< ?n] = take (length us) (us @ i # vs)"
    by (rule arg_cong [OF split])
  with len have "[0 ..< length us] = us" by simp
  then have "set [0 ..< length us] = set us" by (rule arg_cong)
  then have "set us = {0 ..< i}" unfolding i by simp
  with before have "\<forall>j<i. \<not> ?P j" by simp
  with here len i show ?thesis by simp
qed

lemma rename_symbol_run:
  assumes p: "currentProgram w = Some p"
  shows "rename_symbol E address_str new_name w =
     (case raises E (length (calls w)) (GetAddress address_str) of
        Some e \<Rightarrow> (Inr \<lparr>success = False, message = str_exn e\<rparr>,
                   w\<lparr>calls := calls w @ [GetAddress address_str]\<rparr>)
      | None \<Rightarrow>
        (case raises E (length (calls w) + 1) (GetSymbols (address_of E address_str)) of
           Some e \<Rightarrow> (Inr \<lparr>success = False, message = str_exn e\<rparr>,
                      w\<lparr>calls := calls w @ [GetAddress address_str,
                                             GetSymbols (address_of E address_str)]\<rparr>)
         | None \<Rightarrow>
           (case symbols_at p (address_of E address_str) of
              [] \<Rightarrow> (Inr \<lparr>success = False, message = ''No symbol found at address''\<rparr>,
                      w\<lparr>calls := calls w @ [GetAddress address_str,
                                             GetSymbols (address_of E address_str)]\<rparr>)
            | s # _ \<Rightarrow>
              (case raises E (length (calls w) + 2) (SetName s new_name USER_DEFINED) of
                 Some e \<Rightarrow> (Inr \<lparr>success = False, message = str_exn e\<rparr>,
                      w\<lparr>calls := calls w @ [GetAddress address_str,
                         GetSymbols (address_of E address_str), SetName s new_name USER_DEFINED]\<rparr>)
               | None \<Rightarrow> (Inr \<lparr>success = True, message = ''Renamed to '' @ new_name\<rparr>,
                      w\<lparr>calls := calls w @ [GetAddress address_str,
                         GetSymbols (address_of E address_str), SetName s new_name USER_DEFINED],
                        currentProgram := Some (renamed s new_name USER_DEFINED p)\<rparr>)))))"
  using p
  by (simp add: rename_symbol_def rename_symbol_try_def setName_def try_except_def
        seq_simps returns_def eval_nat_numeral split: option.splits list.splits)

text \<open>
  C4. Let the program be at hand, \<open>a\<close> the address the address text resolves to and \<open>n\<close> the
  number of engine calls issued before. When no symbol is bound at \<open>a\<close>, \<open>rename_symbol\<close>
  returns the failure \<open>No symbol found at address\<close> and the program is unchanged. When
  symbols are bound at \<open>a\<close> and the engine accepts the rename, it returns success, and the
  program differs from the old one in the first symbol bound at \<open>a\<close> only, which now has the
  new name and the source \<open>USER_DEFINED\<close>; every other symbol is unchanged. An exception of
  the address factory, of the symbol lookup or of \<open>setName\<close> becomes the failure result with
  the exception's text, the program unchanged; nothing is raised.
\<close>

theorem rename_symbol_cases:
  assumes run: "rename_symbol E address_str new_name w = (res, w')"
    and n: "n = length (calls w)"
    and a: "a = address_of E address_str"
    and p: "currentProgram w = Some p"
  shows "(raises E n (GetAddress address_str) = None \<and> raises E (n + 1) (GetSymbols a) = None
          \<and> symbols_at p a = [] \<longrightarrow>
            res = Inr \<lparr>success = False, message = ''No symbol found at address''\<rparr>
            \<and> currentProgram w' = Some p)
       \<and> (raises E n (GetAddress address_str) = None \<and> raises E (n + 1) (GetSymbols a) = None
          \<and> symbols_at p a = i # rest
          \<and> raises E (n + 2) (SetName i new_name USER_DEFINED) = None \<longrightarrow>
            res = Inr \<lparr>success = True, message = ''Renamed to '' @ new_name\<rparr>
            \<and> currentProgram w' = Some (renamed i new_name USER_DEFINED p)
            \<and> i < length (p_symbols p) \<and> sym_address (p_symbols p ! i) = a
            \<and> (\<forall>j<i. sym_address (p_symbols p ! j) \<noteq> a)
            \<and> length (p_symbols (renamed i new_name USER_DEFINED p)) = length (p_symbols p)
            \<and> sym_name (p_symbols (renamed i new_name USER_DEFINED p) ! i) = new_name
            \<and> sym_source (p_symbols (renamed i new_name USER_DEFINED p) ! i) = USER_DEFINED
            \<and> (\<forall>j. j \<noteq> i \<longrightarrow>
                  p_symbols (renamed i new_name USER_DEFINED p) ! j = p_symbols p ! j))
       \<and> (raises E n (GetAddress address_str) = Some e
          \<or> raises E n (GetAddress address_str) = None \<and> raises E (n + 1) (GetSymbols a) = Some e
          \<or> raises E n (GetAddress address_str) = None \<and> raises E (n + 1) (GetSymbols a) = None
             \<and> symbols_at p a = i # rest
             \<and> raises E (n + 2) (SetName i new_name USER_DEFINED) = Some e \<longrightarrow>
            res = Inr \<lparr>success = False, message = str_exn e\<rparr>
            \<and> currentProgram w' = Some p)
       \<and> (\<exists>r. res = Inr r)"
proof -
  have r: "res = fst (rename_symbol E address_str new_name w)"
    and w: "w' = snd (rename_symbol E address_str new_name w)"
    using run by simp_all
  have none: "raises E n (GetAddress address_str) = None \<and> raises E (n + 1) (GetSymbols a) = None
          \<and> symbols_at p a = [] \<longrightarrow>
            res = Inr \<lparr>success = False, message = ''No symbol found at address''\<rparr>
            \<and> currentProgram w' = Some p"
    unfolding r w rename_symbol_run [OF p] n a using p by simp
  have renamed: "raises E n (GetAddress address_str) = None \<and> raises E (n + 1) (GetSymbols a) = None
          \<and> symbols_at p a = i # rest
          \<and> raises E (n + 2) (SetName i new_name USER_DEFINED) = None \<longrightarrow>
            res = Inr \<lparr>success = True, message = ''Renamed to '' @ new_name\<rparr>
            \<and> currentProgram w' = Some (renamed i new_name USER_DEFINED p)"
    unfolding r w rename_symbol_run [OF p] n a by simp
  have first: "symbols_at p a = i # rest \<longrightarrow>
      i < length (p_symbols p) \<and> sym_address (p_symbols p ! i) = a
       \<and> (\<forall>j<i. sym_address (p_symbols p ! j) \<noteq> a)"
    using symbols_at_first by blast
  have upd: "i < length (p_symbols p) \<longrightarrow>
      length (p_symbols (renamed i new_name USER_DEFINED p)) = length (p_symbols p)
      \<and> sym_name (p_symbols (renamed i new_name USER_DEFINED p) ! i) = new_name
      \<and> sym_source (p_symbols (renamed i new_name USER_DEFINED p) ! i) = USER_DEFINED
      \<and> (\<forall>j. j \<noteq> i \<longrightarrow> p_symbols (renamed i new_name USER_DEFINED p) ! j = p_symbols p ! j)"
    by (simp add: renamed_def)
  have fault: "raises E n (GetAddress address_str) = Some e
          \<or> raises E n (GetAddress address_str) = None \<and> raises E (n + 1) (GetSymbols a) = Some e
          \<or> raises E n (GetAddress address_str) = None \<and> raises E (n + 1) (GetSymbols a) = None
             \<and> symbols_at p a = i # rest
             \<and> raises E (n + 2) (SetName i new_name USER_DEFINED) = Some e \<longrightarrow>
            res = Inr \<lparr>success = False, message = str_exn e\<rparr>
            \<and> currentProgram w' = Some p"
    unfolding r w rename_symbol_run [OF p] n a using p by auto
  have total: "\<exists>r. res = Inr r"
    unfolding r rename_symbol_run [OF p] by (simp split: option.splits list.splits)
  from none renamed first upd fault total show ?thesis by blast
qed


theorem rename_symbol_cases_witness:
  "symbols_at demo_program 4096 = [0, 2]
   \<and> fst (rename_symbol demo_engine ''00001000'' ''main'' demo_world) =
       Inr \<lparr>success = True, message = ''Renamed to main''\<rparr>
   \<and> currentProgram (snd (rename_symbol demo_engine ''00001000'' ''main'' demo_world)) =
       Some (renamed 0 ''main'' USER_DEFINED demo_program)
   \<and> sym_name (p_symbols (renamed 0 ''main'' USER_DEFINED demo_program) ! 0) = ''main''
   \<and> sym_source (p_symbols (renamed 0 ''main'' USER_DEFINED demo_program) ! 0) = USER_DEFINED
   \<and> p_symbols (renamed 0 ''main'' USER_DEFINED demo_program) ! 2 = p_symbols demo_program ! 2
   \<and> symbols_at demo_program 12288 = []
   \<and> fst (rename_symbol demo_engine ''00003000'' ''main'' demo_world) =
       Inr \<lparr>success = False, message = ''No symbol found at address''\<rparr>
   \<and> currentProgram (snd (rename_symbol demo_engine ''00003000'' ''main'' demo_world)) =
       Some demo_program
   \<and> fst (rename_symbol (faults duplicate_name) ''00001000'' ''printf'' demo_world) =
       Inr \<lparr>success = False, message = ''duplicate name''\<rparr>
   \<and> currentProgram (snd (rename_symbol (faults duplicate_name) ''00001000'' ''printf''
                            demo_world)) = Some demo_program"
proof -
  have at: "symbols_at demo_program 4096 = [0, 2]"
    by (simp add: symbols_at_def demo_program_def demo_symbols_def)
  have nowhere: "symbols_at demo_program 12288 = []"
    by (simp add: symbols_at_def demo_program_def demo_symbols_def)
  have quiet: "raises demo_engine k c = None" for k c
    by (simp add: demo_engine_def)
  have refuses: "raises (faults duplicate_name) k (GetAddress s) = None"
    "raises (faults duplicate_name) k (GetSymbols a) = None"
    "raises (faults duplicate_name) k (SetName i name src) = Some (EngineError ''duplicate name'')"
    for k s a i name src
    by (simp_all add: faults_def duplicate_name_def)
  have addr: "address_of demo_engine ''00001000'' = 4096"
    "address_of (faults duplicate_name) ''00001000'' = 4096"
    by (simp_all add: demo_engine_def faults_def)
  have cp: "currentProgram demo_world = Some demo_program" and n: "0 = length (calls demo_world)"
    by (simp_all add: demo_world_def)
  note renamed_case =
    rename_symbol_cases
      [of demo_engine "''00001000''" "''main''" demo_world
          "fst (rename_symbol demo_engine ''00001000'' ''main'' demo_world)"
          "snd (rename_symbol demo_engine ''00001000'' ''main'' demo_world)"
          0 4096 demo_program 0 "[2]" "EngineError ''duplicate name''",
       OF prod.collapse [symmetric] n addr(1) [symmetric] cp]
  note refused_case =
    rename_symbol_cases
      [of "faults duplicate_name" "''00001000''" "''printf''" demo_world
          "fst (rename_symbol (faults duplicate_name) ''00001000'' ''printf'' demo_world)"
          "snd (rename_symbol (faults duplicate_name) ''00001000'' ''printf'' demo_world)"
          0 4096 demo_program 0 "[2]" "EngineError ''duplicate name''",
       OF prod.collapse [symmetric] n addr(2) [symmetric] cp]
  have far: "12288 = address_of demo_engine ''00003000''"
    by (simp add: demo_engine_def)
  note absent_case =
    rename_symbol_cases
      [of demo_engine "''00003000''" "''main''" demo_world
          "fst (rename_symbol demo_engine ''00003000'' ''main'' demo_world)"
          "snd (rename_symbol demo_engine ''00003000'' ''main'' demo_world)"
          0 12288 demo_program 0 "[2]" "EngineError ''duplicate name''",
       OF prod.collapse [symmetric] n far cp]
  have two: "(2::nat) \<noteq> 0" by simp
  from renamed_case refused_case absent_case at nowhere two show ?thesis
    by (simp add: quiet refuses str_exn_def)
qed



section \<open>Statements that only query the engine\<close>

lemma reads_only_returns: "reads_only E (returns v)"
  by (simp add: reads_only_def returns_def)

lemma reads_only_engine_call: "reads_only E (engine_call E c v)"
  by (simp add: reads_only_def engine_call_def aborted_at_def split: option.splits)

lemma reads_only_attr: "reads_only E (currentProgram_attr attr)"
  by (simp add: reads_only_def currentProgram_attr_def aborted_at_def split: option.splits)

lemma reads_only_seq:
  assumes "reads_only E m" and "\<And>v. reads_only E (f v)"
  shows "reads_only E (seq m f)"
  unfolding reads_only_def
proof (intro allI conjI impI)
  fix w
  obtain r w1 where m: "m w = (r, w1)" by (cases "m w")
  from assms(1) have
    "currentProgram (snd (m w)) = currentProgram w
     \<and> (\<forall>e. fst (m w) = Inl e \<longrightarrow> aborted_at E e (snd (m w)))"
    unfolding reads_only_def by (rule spec)
  with m have keep: "currentProgram w1 = currentProgram w"
    and stop: "\<And>e. r = Inl e \<Longrightarrow> aborted_at E e w1"
    by simp_all
  have next_step: "currentProgram (snd (f v w1)) = currentProgram w1
      \<and> (\<forall>e. fst (f v w1) = Inl e \<longrightarrow> aborted_at E e (snd (f v w1)))" for v
    using assms(2) [of v] unfolding reads_only_def by (rule spec)
  show "currentProgram (snd (seq m f w)) = currentProgram w"
    using m keep next_step by (cases r) (simp_all add: seq_def)
  fix e
  assume "fst (seq m f w) = Inl e"
  then show "aborted_at E e (snd (seq m f w))"
    using m stop next_step by (cases r) (simp_all add: seq_def)
qed

lemma reads_only_case_option:
  "reads_only E a \<Longrightarrow> (\<And>x. reads_only E (b x)) \<Longrightarrow> reads_only E (case v of None \<Rightarrow> a | Some x \<Rightarrow> b x)"
  by (cases v) simp_all

lemma reads_only_case_list:
  "reads_only E a \<Longrightarrow> (\<And>x xs. reads_only E (b x xs)) \<Longrightarrow>
     reads_only E (case v of [] \<Rightarrow> a | x # xs \<Rightarrow> b x xs)"
  by (cases v) simp_all

lemma reads_only_if:
  "reads_only E a \<Longrightarrow> reads_only E b \<Longrightarrow> reads_only E (if c then a else b)"
  by simp

lemmas reads_only_intros =
  reads_only_seq reads_only_returns reads_only_engine_call reads_only_attr
  reads_only_case_option reads_only_case_list reads_only_if

lemma reads_only_get_entry_point: "reads_only E (get_entry_point E)"
  unfolding reads_only_def
proof (intro allI)
  fix w
  show "currentProgram (snd (get_entry_point E w)) = currentProgram w
        \<and> (\<forall>e. fst (get_entry_point E w) = Inl e \<longrightarrow> aborted_at E e (snd (get_entry_point E w)))"
    by (cases "currentProgram w";
        cases "raises E (length (calls w)) GetExternalEntryPointIterator";
        cases "p_entry_points (the (currentProgram w))";
        cases "raises E (Suc (length (calls w))) GetMinAddress")
       (simp_all add: get_entry_point_def seq_simps getAddress_no_argument_def raise_exn_def
          returns_def engine_call_def aborted_at_def)
qed

lemma reads_only_decompile_function: "reads_only E (decompile_function E function)"
  unfolding decompile_function_def by (intro reads_only_intros)

lemma reads_only_get_functions: "reads_only E (get_functions E)"
  unfolding get_functions_def by (intro reads_only_intros)

lemma reads_only_get_symbols: "reads_only E (get_symbols E)"
  unfolding get_symbols_def by (intro reads_only_intros)

lemma reads_only_get_disassembly: "reads_only E (get_disassembly E a n)"
  unfolding reads_only_def
proof (intro allI)
  fix w
  show "currentProgram (snd (get_disassembly E a n w)) = currentProgram w
        \<and> (\<forall>e. fst (get_disassembly E a n w) = Inl e \<longrightarrow>
              aborted_at E e (snd (get_disassembly E a n w)))"
    by (cases "currentProgram w"; cases "raises E (length (calls w)) (GetInstructionAt a)";
        cases "p_instructions (the (currentProgram w)) a")
       (simp_all add: get_disassembly_run aborted_at_def)
qed

lemma reads_only_analyze_try: "reads_only E (analyze_try E)"
  unfolding analyze_try_def
  by (intro reads_only_intros reads_only_get_entry_point reads_only_decompile_function
        reads_only_get_functions reads_only_get_symbols reads_only_get_disassembly)

lemma reads_only_keeps:
  "reads_only E m \<Longrightarrow> m w = (r, w') \<Longrightarrow> currentProgram w' = currentProgram w"
  unfolding reads_only_def by (drule spec [of _ w]) simp

subsection \<open>What a completed analysis holds\<close>

lemma seq_InrE:
  assumes "seq m f w = (Inr r, w')"
  obtains v w1 where "m w = (Inr v, w1)" and "f v w1 = (Inr r, w')"
  using assms by (auto simp: seq_def split: prod.splits sum.splits)

lemma functions_loop_eq:
  "functions_loop E fs acc = acc @ map (function_dict E) fs"
  by (induction fs arbitrary: acc) simp_all

lemma engine_call_Inr: "engine_call E c v w = (Inr x, w') \<Longrightarrow> x = v"
  by (simp add: engine_call_def split: option.splits)

lemma currentProgram_attr_Inr:
  "currentProgram_attr attr w = (Inr p, w') \<Longrightarrow> currentProgram w = Some p \<and> w' = w"
  by (simp add: currentProgram_attr_def split: option.splits)

lemma get_entry_point_Inr:
  assumes "get_entry_point E w = (Inr a, w')" and "currentProgram w = Some p"
  shows "a = (case p_entry_points p of x # _ \<Rightarrow> x | [] \<Rightarrow> p_min_address p)"
  using assms
  by (auto simp: get_entry_point_def seq_simps returns_def engine_call_def
        getAddress_no_argument_def raise_exn_def
        split: option.splits list.splits)

lemma get_functions_Inr:
  assumes "get_functions E w = (Inr fs, w')" and "currentProgram w = Some p"
  shows "fs = map (function_dict E) (p_functions p)"
  using assms
  by (auto simp: get_functions_def seq_simps returns_def functions_loop_eq all_functions_def
        split: option.splits)

lemma get_symbols_Inr:
  assumes "get_symbols E w = (Inr ss, w')" and "currentProgram w = Some p"
  shows "ss = map (symbol_dict E)
                (filter (\<lambda>s. \<not> sym_dynamic s \<and> \<not> sym_external s) (p_symbols p))"
  using assms
  by (auto simp: get_symbols_def seq_simps returns_def symbols_loop_eq all_symbols_def conj_commute
        split: option.splits)

lemma get_disassembly_length:
  "get_disassembly E a n w = (Inr recs, w') \<Longrightarrow> length recs \<le> nat n"
  by (auto simp: get_disassembly_run split: option.splits if_splits)

lemma analyze_try_report:
  assumes "analyze_try E w = (Inr r, w')"
  shows "\<exists>p a. currentProgram w = Some p \<and> r = AnalysisReport a
           \<and> ar_program_name a = p_name p
           \<and> ar_entry_point a =
               str_address E (case p_entry_points p of x # _ \<Rightarrow> x | [] \<Rightarrow> p_min_address p)
           \<and> ar_functions a = map (function_dict E) (p_functions p)
           \<and> ar_symbols a = map (symbol_dict E)
                (filter (\<lambda>s. \<not> sym_dynamic s \<and> \<not> sym_external s) (p_symbols p))
           \<and> length (ar_disassembly a) \<le> 100
           \<and> ar_image_base a = str_address E (p_image_base p)
           \<and> ar_language a = p_language p"
  using assms unfolding analyze_try_def
proof (elim seq_InrE)
  fix d w1 u w2 entry w3 p w4 fn w5 dec w6 fs w7 ss w8 dis w9 nm w10 ib w11 lang w12
  assume c1: "engine_call E DecompInterface_init () w = (Inr d, w1)"
    and c2: "engine_call E OpenProgram () w1 = (Inr u, w2)"
    and c3: "get_entry_point E w2 = (Inr entry, w3)"
    and c4: "currentProgram_attr ''getFunctionManager'' w3 = (Inr p, w4)"
    and c5: "engine_call E (GetFunctionContaining entry) (function_containing p entry) w4 = (Inr fn, w5)"
    and c6: "(case fn of None \<Rightarrow> returns None | Some f \<Rightarrow> decompile_function E (Some f)) w5 = (Inr dec, w6)"
    and c7: "get_functions E w6 = (Inr fs, w7)"
    and c8: "get_symbols E w7 = (Inr ss, w8)"
    and c9: "get_disassembly E entry 100 w8 = (Inr dis, w9)"
    and c10: "engine_call E GetName (p_name p) w9 = (Inr nm, w10)"
    and c11: "engine_call E GetImageBase (p_image_base p) w10 = (Inr ib, w11)"
    and c12: "engine_call E GetLanguageID (p_language p) w11 = (Inr lang, w12)"
    and c13: "returns (AnalysisReport
         \<lparr>ar_program_name = nm,
          ar_entry_point = str_address E entry,
          ar_entry_function = dec,
          ar_functions = fs,
          ar_symbols = ss,
          ar_disassembly = dis,
          ar_image_base = str_address E ib,
          ar_language = lang\<rparr>) w12 = (Inr r, w')"
  have k1: "currentProgram w1 = currentProgram w"
    using reads_only_keeps [OF reads_only_engine_call c1] .
  have k2: "currentProgram w2 = currentProgram w"
    using reads_only_keeps [OF reads_only_engine_call c2] k1 by simp
  have k3: "currentProgram w3 = currentProgram w"
    using reads_only_keeps [OF reads_only_get_entry_point c3] k2 by simp
  from c4 have p: "currentProgram w3 = Some p" and k4: "w4 = w3"
    using currentProgram_attr_Inr by blast+
  have k5: "currentProgram w5 = Some p"
    using reads_only_keeps [OF reads_only_engine_call c5] k4 p by simp
  have "reads_only E (case fn of None \<Rightarrow> returns None | Some f \<Rightarrow> decompile_function E (Some f))"
    by (intro reads_only_intros reads_only_decompile_function)
  from reads_only_keeps [OF this c6] k5 have k6: "currentProgram w6 = Some p" by simp
  have k7: "currentProgram w7 = Some p"
    using reads_only_keeps [OF reads_only_get_functions c7] k6 by simp
  have k8: "currentProgram w8 = Some p"
    using reads_only_keeps [OF reads_only_get_symbols c8] k7 by simp
  have e: "entry = (case p_entry_points p of x # _ \<Rightarrow> x | [] \<Rightarrow> p_min_address p)"
    using get_entry_point_Inr [OF c3] k2 k3 p by simp
  have f: "fs = map (function_dict E) (p_functions p)"
    using get_functions_Inr [OF c7 k6] .
  have s: "ss = map (symbol_dict E)
                (filter (\<lambda>s. \<not> sym_dynamic s \<and> \<not> sym_external s) (p_symbols p))"
    using get_symbols_Inr [OF c8 k7] .
  have l: "length dis \<le> 100"
    using get_disassembly_length [OF c9] by simp
  have v: "nm = p_name p" "ib = p_image_base p" "lang = p_language p"
    using engine_call_Inr [OF c10] engine_call_Inr [OF c11] engine_call_Inr [OF c12] by simp_all
  from k3 p have cp: "currentProgram w = Some p" by simp
  from c13 have "r = AnalysisReport
         \<lparr>ar_program_name = nm,
          ar_entry_point = str_address E entry,
          ar_entry_function = dec,
          ar_functions = fs,
          ar_symbols = ss,
          ar_disassembly = dis,
          ar_image_base = str_address E ib,
          ar_language = lang\<rparr>"
    by (simp add: returns_def)
  with e f s l v cp show ?thesis by simp
qed

lemma try_except_total:
  "fst (try_except m (\<lambda>e. returns (h e)) w) =
     Inr (case fst (m w) of Inl e \<Rightarrow> h e | Inr v \<Rightarrow> v)"
  by (simp add: try_except_def returns_def split: prod.splits sum.splits)

lemma analyze_program_returns:
  assumes "fst (analyze_try E w) = Inr r"
  shows "analyze_program E w = analyze_try E w"
  using assms by (cases "analyze_try E w") (simp add: analyze_program_def try_except_def)

lemma analyze_program_handles:
  assumes raised: "fst (analyze_try E w) = Inl e"
  shows "analyze_program E w =
     (case currentProgram w of
        None \<Rightarrow> (Inr (ErrorReport True (str_exn e) (format_exc E e) ''unknown''),
                 snd (analyze_try E w))
      | Some p \<Rightarrow>
          (case raises E (length (calls (snd (analyze_try E w)))) GetName of
             None \<Rightarrow> Inr (ErrorReport True (str_exn e) (format_exc E e) (p_name p))
           | Some e' \<Rightarrow> Inl e',
           (snd (analyze_try E w))\<lparr>calls := calls (snd (analyze_try E w)) @ [GetName]\<rparr>))"
proof -
  obtain r wb where run: "analyze_try E w = (r, wb)" by (cases "analyze_try E w")
  with raised have r: "r = Inl e" by simp
  from reads_only_keeps [OF reads_only_analyze_try run]
  have keep: "currentProgram wb = currentProgram w" .
  show ?thesis
    using run r keep
    by (cases "currentProgram w"; cases "raises E (length (calls wb)) GetName")
       (simp_all add: analyze_program_def analyze_except_def try_except_def seq_def returns_def
          engine_call_def)
qed

lemma analyze_try_aborts:
  assumes "fst (analyze_try E w) = Inl e"
  shows "aborted_at E e (snd (analyze_try E w))"
  using reads_only_analyze_try [of E] assms unfolding reads_only_def by blast

subsection \<open>The analysis of the small program\<close>

lemma seq_get_disassembly:
  "seq (get_disassembly E start n) f w =
     (case currentProgram w of
        None \<Rightarrow> (Inl (AttributeError ''getListing''), w)
      | Some p \<Rightarrow>
          if n \<le> 0 then f [] w
          else
            (case raises E (length (calls w)) (GetInstructionAt start) of
               Some e \<Rightarrow> (Inl e, w\<lparr>calls := calls w @ [GetInstructionAt start]\<rparr>)
             | None \<Rightarrow>
                 (case p_instructions p start of
                    None \<Rightarrow> f [] (w\<lparr>calls := calls w @ [GetInstructionAt start]\<rparr>)
                  | Some i \<Rightarrow>
                      (Inl (TypeError
                              ''getDefaultOperandRepresentation(): expected 1 args; got 0''),
                       w\<lparr>calls := calls w @ [GetInstructionAt start]\<rparr>))))"
  by (simp add: seq_def get_disassembly_run split: option.splits)

lemma demo_entry_point_raises:
  "analyze_try E \<lparr>currentProgram = Some demo_program, calls = cs\<rparr> =
     (case raises E (length cs) DecompInterface_init of
        Some e \<Rightarrow>
          (Inl e, \<lparr>currentProgram = Some demo_program, calls = cs @ [DecompInterface_init]\<rparr>)
      | None \<Rightarrow>
          (case raises E (Suc (length cs)) OpenProgram of
             Some e \<Rightarrow>
               (Inl e, \<lparr>currentProgram = Some demo_program,
                        calls = cs @ [DecompInterface_init, OpenProgram]\<rparr>)
           | None \<Rightarrow>
               (case raises E (Suc (Suc (length cs))) GetExternalEntryPointIterator of
                  Some e \<Rightarrow>
                    (Inl e, \<lparr>currentProgram = Some demo_program,
                             calls = cs @ [DecompInterface_init, OpenProgram,
                                           GetExternalEntryPointIterator]\<rparr>)
                | None \<Rightarrow>
                    (Inl (TypeError ''getAddress(): expected 1 args; got 0''),
                     \<lparr>currentProgram = Some demo_program,
                      calls = cs @ [DecompInterface_init, OpenProgram,
                                    GetExternalEntryPointIterator]\<rparr>))))"
  by (simp add: analyze_try_def get_entry_point_def seq_simps getAddress_no_argument_def
        demo_program_def split: option.splits)

lemma stripped_decompiler_dies:
  "analyze_try (faults decompiler_died) \<lparr>currentProgram = Some stripped_program, calls = cs\<rparr> =
     (Inl (EngineError ''decompiler process died''),
      \<lparr>currentProgram = Some stripped_program,
       calls = cs @ [DecompInterface_init, OpenProgram, GetExternalEntryPointIterator,
                     GetMinAddress, GetFunctionContaining 4096,
                     DecompileFunction demo_entry 30]\<rparr>)"
  by (simp add: analyze_try_def get_entry_point_def decompile_function_def seq_simps returns_def
        function_containing_def in_body_def stripped_program_def demo_program_def demo_engine_def
        faults_def decompiler_died_def demo_entry_def)

lemma no_program_raises:
  "analyze_try demo_engine no_program =
     (Inl (AttributeError ''getSymbolTable''),
      no_program\<lparr>calls := [DecompInterface_init, OpenProgram]\<rparr>)"
  by (simp add: analyze_try_def get_entry_point_def seq_simps returns_def no_program_def
        demo_engine_def)

lemma data_program_closed:
  "analyze_try (faults program_closed) \<lparr>currentProgram = Some data_program, calls = cs\<rparr> =
     (Inl (EngineError ''program closed''),
      \<lparr>currentProgram = Some data_program,
       calls = cs @ [DecompInterface_init, OpenProgram, GetExternalEntryPointIterator,
         GetMinAddress, GetFunctionContaining 8192, GetFunctions True, GetAllSymbols False,
         GetInstructionAt 8192, GetName]\<rparr>)"
  by (simp add: analyze_try_def get_entry_point_def decompile_function_def get_functions_def
        get_symbols_def seq_get_disassembly seq_simps returns_def
        function_containing_def in_body_def all_functions_def all_symbols_def
        data_program_def demo_program_def demo_engine_def demo_instructions_def
        faults_def program_closed_def demo_entry_def)

lemma data_analysis_succeeds:
  "\<exists>a w'. analyze_try demo_engine \<lparr>currentProgram = Some data_program, calls = cs\<rparr> =
     (Inr (AnalysisReport a), w')"
  by (simp add: analyze_try_def get_entry_point_def decompile_function_def get_functions_def
        get_symbols_def seq_get_disassembly seq_simps returns_def
        function_containing_def in_body_def all_functions_def all_symbols_def
        data_program_def demo_program_def demo_engine_def demo_instructions_def demo_entry_def)

section \<open>The report and its error envelope\<close>

text \<open>
  C3, as stated, fails: the handler of \<open>analyze_program\<close> asks the program for its name
  (line 180) outside any \<^verbatim>\<open>try\<close>. When the step that raised is the name lookup of line
  162, the lookup of the handler raises as well, and \<open>analyze_program\<close> raises instead of
  returning an error report.
\<close>

theorem analyze_program_handler_counterexample:
  "fst (analyze_try (faults program_closed) data_world) = Inl (EngineError ''program closed'')
   \<and> fst (analyze_program (faults program_closed) data_world) =
       Inl (EngineError ''program closed'')"
proof -
  have raised:
    "fst (analyze_try (faults program_closed) data_world) = Inl (EngineError ''program closed'')"
    by (simp add: data_world_def data_program_closed)
  have "raises (faults program_closed) k GetName = Some (EngineError ''program closed'')" for k
    by (simp add: faults_def program_closed_def)
  moreover have "currentProgram data_world = Some data_program"
    by (simp add: data_world_def)
  ultimately show ?thesis
    using raised by (simp add: analyze_program_handles [OF raised])
qed

text \<open>
  C3, amended. When a step of the \<^verbatim>\<open>try\<close> block raises \<open>e\<close>, the block stops there (no
  engine call is issued after the one that raised); when the handler's own name lookup
  then answers, or the program handle is \<open>None\<close>, \<open>analyze_program\<close> returns the error report
  with the flag \<open>True\<close>, the message \<open>str(e)\<close>, the traceback, and the program's name or
  \<open>unknown\<close> when the handle is \<open>None\<close>; the handler issues no engine call but that lookup.
  When no step raises, the result is the analysis report, with the program's name, entry
  point, functions, symbols, image base and language and at most 100 instruction records.
  The two shapes are different constructors: no result mixes them.
\<close>

theorem analyze_program_error_report:
  "(fst (analyze_try E w) = Inl e
    \<and> (currentProgram w \<noteq> None \<longrightarrow>
          raises E (length (calls (snd (analyze_try E w)))) GetName = None) \<longrightarrow>
      fst (analyze_program E w) =
        Inr (ErrorReport True (str_exn e) (format_exc E e)
               (case currentProgram w of None \<Rightarrow> ''unknown'' | Some p \<Rightarrow> p_name p))
      \<and> aborted_at E e (snd (analyze_try E w))
      \<and> new_calls (snd (analyze_try E w)) (snd (analyze_program E w)) =
          (case currentProgram w of None \<Rightarrow> [] | Some p \<Rightarrow> [GetName]))
   \<and> (fst (analyze_try E w) = Inr r \<longrightarrow>
        analyze_program E w = analyze_try E w
        \<and> (\<exists>p a. currentProgram w = Some p \<and> r = AnalysisReport a
              \<and> ar_program_name a = p_name p
              \<and> ar_entry_point a =
                  str_address E
                    (case p_entry_points p of x # _ \<Rightarrow> x | [] \<Rightarrow> p_min_address p)
              \<and> ar_functions a = map (function_dict E) (p_functions p)
              \<and> ar_symbols a =
                  map (symbol_dict E)
                    (filter (\<lambda>s. \<not> sym_dynamic s \<and> \<not> sym_external s) (p_symbols p))
              \<and> length (ar_disassembly a) \<le> 100
              \<and> ar_image_base a = str_address E (p_image_base p)
              \<and> ar_language a = p_language p))"
proof (intro conjI impI)
  assume h: "fst (analyze_try E w) = Inl e
    \<and> (currentProgram w \<noteq> None \<longrightarrow>
          raises E (length (calls (snd (analyze_try E w)))) GetName = None)"
  then have raised: "fst (analyze_try E w) = Inl e" by simp
  from h show "fst (analyze_program E w) =
        Inr (ErrorReport True (str_exn e) (format_exc E e)
               (case currentProgram w of None \<Rightarrow> ''unknown'' | Some p \<Rightarrow> p_name p))"
    by (cases "currentProgram w") (simp_all add: analyze_program_handles [OF raised])
  from raised show "aborted_at E e (snd (analyze_try E w))"
    by (rule analyze_try_aborts)
  from h show "new_calls (snd (analyze_try E w)) (snd (analyze_program E w)) =
          (case currentProgram w of None \<Rightarrow> [] | Some p \<Rightarrow> [GetName])"
    by (cases "currentProgram w")
       (simp_all add: analyze_program_handles [OF raised] new_calls_def)
next
  assume ok: "fst (analyze_try E w) = Inr r"
  then show "analyze_program E w = analyze_try E w"
    by (rule analyze_program_returns)
  from ok have "analyze_try E w = (Inr r, snd (analyze_try E w))"
    by (simp add: prod_eq_iff)
  then show "\<exists>p a. currentProgram w = Some p \<and> r = AnalysisReport a
              \<and> ar_program_name a = p_name p
              \<and> ar_entry_point a =
                  str_address E
                    (case p_entry_points p of x # _ \<Rightarrow> x | [] \<Rightarrow> p_min_address p)
              \<and> ar_functions a = map (function_dict E) (p_functions p)
              \<and> ar_symbols a =
                  map (symbol_dict E)
                    (filter (\<lambda>s. \<not> sym_dynamic s \<and> \<not> sym_external s) (p_symbols p))
              \<and> length (ar_disassembly a) \<le> 100
              \<and> ar_image_base a = str_address E (p_image_base p)
              \<and> ar_language a = p_language p"
    by (rule analyze_try_report)
qed

theorem analyze_program_error_report_witness:
  "fst (analyze_try (faults decompiler_died) stripped_world) =
     Inl (EngineError ''decompiler process died'')
   \<and> fst (analyze_program (faults decompiler_died) stripped_world) =
     Inr (ErrorReport True ''decompiler process died''
            ''Traceback (most recent call last): decompiler process died'' ''demo.bin'')
   \<and> new_calls (snd (analyze_try (faults decompiler_died) stripped_world))
         (snd (analyze_program (faults decompiler_died) stripped_world)) = [GetName]
   \<and> fst (analyze_try demo_engine no_program) = Inl (AttributeError ''getSymbolTable'')
   \<and> fst (analyze_program demo_engine no_program) =
       Inr (ErrorReport True
              ([CHR 0x27] @ ''NoneType'' @ [CHR 0x27] @ '' object has no attribute ''
                 @ [CHR 0x27] @ ''getSymbolTable'' @ [CHR 0x27])
              (format_exc demo_engine (AttributeError ''getSymbolTable'')) ''unknown'')
   \<and> fst (analyze_program demo_engine demo_world) =
       Inr (ErrorReport True ''getAddress(): expected 1 args; got 0''
              ''Traceback (most recent call last): getAddress(): expected 1 args; got 0''
              ''demo.bin'')
   \<and> (\<exists>a. fst (analyze_program demo_engine data_world) = Inr (AnalysisReport a)
          \<and> ar_program_name a = ''demo.bin'' \<and> ar_entry_point a = ''2000''
          \<and> ar_language a = ''x86:LE:64:default'')"
proof -
  let ?E = "faults decompiler_died"
  have raised: "fst (analyze_try ?E stripped_world) = Inl (EngineError ''decompiler process died'')"
    by (simp add: stripped_world_def stripped_decompiler_dies)
  have handler: "raises ?E k GetName = None" for k
    by (simp add: faults_def decompiler_died_def)
  have cp: "currentProgram stripped_world = Some stripped_program"
    by (simp add: stripped_world_def)
  have name: "p_name stripped_program = ''demo.bin''"
    by (simp add: stripped_program_def demo_program_def)
  have trace: "format_exc ?E (EngineError ''decompiler process died'') =
      ''Traceback (most recent call last): decompiler process died''"
    by (simp add: faults_def demo_engine_def str_exn_def)
  have absent: "fst (analyze_try demo_engine no_program) = Inl (AttributeError ''getSymbolTable'')"
    by (simp add: no_program_raises)
  have none: "currentProgram no_program = None"
    by (simp add: no_program_def)
  have answers: "raises demo_engine k c = None" for k c
    by (simp add: demo_engine_def)
  have slip: "fst (analyze_try demo_engine demo_world) =
      Inl (TypeError ''getAddress(): expected 1 args; got 0'')"
    by (simp add: demo_world_def demo_entry_point_raises answers)
  have cp': "currentProgram demo_world = Some demo_program"
    by (simp add: demo_world_def)
  have name': "p_name demo_program = ''demo.bin''"
    by (simp add: demo_program_def)
  have trace': "format_exc demo_engine (TypeError ''getAddress(): expected 1 args; got 0'') =
      ''Traceback (most recent call last): getAddress(): expected 1 args; got 0''"
    by (simp add: demo_engine_def str_exn_def)
  obtain a w' where ok: "analyze_try demo_engine data_world = (Inr (AnalysisReport a), w')"
    using data_analysis_succeeds [of "[]"] unfolding data_world_def by blast
  then have full: "fst (analyze_try demo_engine data_world) = Inr (AnalysisReport a)" by simp
  have cp'': "currentProgram data_world = Some data_program"
    by (simp add: data_world_def)
  have facts: "p_name data_program = ''demo.bin''" "p_entry_points data_program = []"
    "str_address demo_engine (p_min_address data_program) = ''2000''"
    "p_language data_program = ''x86:LE:64:default''"
    by (simp_all add: data_program_def demo_program_def demo_engine_def hex.simps hex_digit_def)
  from analyze_program_error_report
      [of ?E stripped_world "EngineError ''decompiler process died''"]
    raised handler cp name trace
  have first: "fst (analyze_program ?E stripped_world) =
     Inr (ErrorReport True ''decompiler process died''
            ''Traceback (most recent call last): decompiler process died'' ''demo.bin'')
   \<and> new_calls (snd (analyze_try ?E stripped_world)) (snd (analyze_program ?E stripped_world)) =
       [GetName]"
    by (simp add: str_exn_def)
  from analyze_program_error_report
      [of demo_engine no_program "AttributeError ''getSymbolTable''"]
    absent none
  have second: "fst (analyze_program demo_engine no_program) =
       Inr (ErrorReport True
              ([CHR 0x27] @ ''NoneType'' @ [CHR 0x27] @ '' object has no attribute ''
                 @ [CHR 0x27] @ ''getSymbolTable'' @ [CHR 0x27])
              (format_exc demo_engine (AttributeError ''getSymbolTable'')) ''unknown'')"
    by (simp add: str_exn_def)
  from analyze_program_error_report
      [of demo_engine demo_world "TypeError ''getAddress(): expected 1 args; got 0''"]
    slip answers cp' name' trace'
  have third: "fst (analyze_program demo_engine demo_world) =
       Inr (ErrorReport True ''getAddress(): expected 1 args; got 0''
              ''Traceback (most recent call last): getAddress(): expected 1 args; got 0''
              ''demo.bin'')"
    by (simp add: str_exn_def)
  from analyze_program_error_report
      [of demo_engine data_world _ "AnalysisReport a"]
    full cp'' facts
  have fourth: "\<exists>a. fst (analyze_program demo_engine data_world) = Inr (AnalysisReport a)
          \<and> ar_program_name a = ''demo.bin'' \<and> ar_entry_point a = ''2000''
          \<and> ar_language a = ''x86:LE:64:default''"
    by simp
  from raised first absent second third fourth show ?thesis by blast
qed

section \<open>The run of the script\<close>

lemma main_run:
  "main E w =
     (case raises E (length (calls w)) ConsoleTaskMonitor_init of
        Some e \<Rightarrow> ((Some e, []), w\<lparr>calls := calls w @ [ConsoleTaskMonitor_init]\<rparr>)
      | None \<Rightarrow>
          (case analyze_program E (w\<lparr>calls := calls w @ [ConsoleTaskMonitor_init]\<rparr>) of
             (Inl e, w') \<Rightarrow> ((Some e, []), w')
           | (Inr result, w') \<Rightarrow>
               (case json_dumps E result of
                  Inl e \<Rightarrow> ((Some e, [''__NEOGHIDRA_JSON_START__'']), w')
                | Inr document \<Rightarrow>
                    ((None, [''__NEOGHIDRA_JSON_START__'', document,
                             ''__NEOGHIDRA_JSON_END__'']), w'))))"
  by (simp add: main_def seq_engine_call split: option.splits)

lemma analyze_program_raises_iff:
  "fst (analyze_program E w) = Inl e \<longleftrightarrow>
     (\<exists>e0. fst (analyze_try E w) = Inl e0) \<and> currentProgram w \<noteq> None
     \<and> raises E (length (calls (snd (analyze_try E w)))) GetName = Some e"
proof (cases "fst (analyze_try E w)")
  case (Inl e0)
  then show ?thesis
    by (simp add: analyze_program_handles [OF Inl] split: option.splits)
next
  case (Inr r)
  then show ?thesis by (simp add: analyze_program_returns [OF Inr])
qed

lemma main_escapes:
  assumes "raises E (length (calls w)) ConsoleTaskMonitor_init = None"
    and "fst (analyze_program E (w\<lparr>calls := calls w @ [ConsoleTaskMonitor_init]\<rparr>)) = Inl e"
  shows "fst (main E w) = (Some e, [])"
  using assms
  by (cases "analyze_program E (w\<lparr>calls := calls w @ [ConsoleTaskMonitor_init]\<rparr>)")
     (simp add: main_run)

lemma main_serialization_fails:
  assumes "raises E (length (calls w)) ConsoleTaskMonitor_init = None"
    and "fst (analyze_program E (w\<lparr>calls := calls w @ [ConsoleTaskMonitor_init]\<rparr>)) = Inr r"
    and "json_dumps E r = Inl e"
  shows "fst (main E w) = (Some e, [''__NEOGHIDRA_JSON_START__''])"
  using assms
  by (cases "analyze_program E (w\<lparr>calls := calls w @ [ConsoleTaskMonitor_init]\<rparr>)")
     (simp add: main_run)

lemma unserializable_decompiler_dies:
  "analyze_try unserializable \<lparr>currentProgram = Some stripped_program, calls = cs\<rparr> =
     (Inl (EngineError ''decompiler process died''),
      \<lparr>currentProgram = Some stripped_program,
       calls = cs @ [DecompInterface_init, OpenProgram, GetExternalEntryPointIterator,
                     GetMinAddress, GetFunctionContaining 4096,
                     DecompileFunction demo_entry 30]\<rparr>)"
  by (simp add: analyze_try_def get_entry_point_def decompile_function_def seq_simps returns_def
        function_containing_def in_body_def stripped_program_def demo_program_def demo_engine_def
        unserializable_def faults_def decompiler_died_def demo_entry_def)

text \<open>
  C6, as stated, fails: nothing catches an exception of the handler of \<open>analyze_program\<close>,
  and the main block has no \<^verbatim>\<open>try\<close>. When the program's name cannot be read, the
  exception reaches the interpreter before the start marker is printed; when the error
  report cannot be serialized, it reaches the interpreter after the start marker, and
  neither a document nor the end marker is printed.
\<close>

theorem main_exception_escapes_counterexample:
  "fst (main (faults program_closed) data_world) = (Some (EngineError ''program closed''), [])
   \<and> fst (main unserializable stripped_world) =
       (Some (EngineError ''not serializable''), [''__NEOGHIDRA_JSON_START__''])"
proof -
  let ?w = "\<lparr>currentProgram = Some data_program, calls = [ConsoleTaskMonitor_init]\<rparr>"
  let ?v = "\<lparr>currentProgram = Some stripped_program, calls = [ConsoleTaskMonitor_init]\<rparr>"
  have raised: "fst (analyze_try (faults program_closed) ?w) = Inl (EngineError ''program closed'')"
    by (simp add: data_program_closed)
  have "raises (faults program_closed) k GetName = Some (EngineError ''program closed'')" for k
    by (simp add: faults_def program_closed_def)
  then have "fst (analyze_program (faults program_closed) ?w) = Inl (EngineError ''program closed'')"
    by (simp add: analyze_program_handles [OF raised])
  moreover have "raises (faults program_closed) 0 ConsoleTaskMonitor_init = None"
    by (simp add: faults_def program_closed_def)
  ultimately have closed:
    "fst (main (faults program_closed) data_world) = (Some (EngineError ''program closed''), [])"
    using main_escapes [of "faults program_closed" data_world "EngineError ''program closed''"]
    by (simp add: data_world_def)
  have died: "fst (analyze_try unserializable ?v) = Inl (EngineError ''decompiler process died'')"
    by (simp add: unserializable_decompiler_dies)
  have answers: "raises unserializable k GetName = None"
    "raises unserializable k ConsoleTaskMonitor_init = None" for k
    by (simp_all add: unserializable_def faults_def decompiler_died_def)
  have "\<exists>r. fst (analyze_program unserializable ?v) = Inr r"
    by (simp add: analyze_program_handles [OF died] answers)
  then obtain r where "fst (analyze_program unserializable ?v) = Inr r" ..
  moreover have "json_dumps unserializable r = Inl (EngineError ''not serializable'')"
    by (simp add: unserializable_def)
  ultimately have
    "fst (main unserializable stripped_world) =
       (Some (EngineError ''not serializable''), [''__NEOGHIDRA_JSON_START__''])"
    using main_serialization_fails
            [of unserializable stripped_world r "EngineError ''not serializable''"] answers
    by (simp add: stripped_world_def)
  with closed show ?thesis by simp
qed

text \<open>
  C6, amended. A run prints exactly the start marker, one document and the end marker,
  and ends without an exception, when the task monitor is created, \<open>analyze_program\<close>
  returns and \<open>json.dumps\<close> serializes its result; a run that ends without an exception has
  printed exactly that. A run that ends with an exception has printed nothing, or the
  start marker alone. \<open>analyze_program\<close> raises exactly when a step of its \<^verbatim>\<open>try\<close> block
  raised and the name lookup of its handler raises too. \<open>rename_symbol\<close> and
  \<open>set_data_type\<close> always return a result.
\<close>

theorem main_emits_document:
  "(raises E (length (calls w)) ConsoleTaskMonitor_init = None
    \<and> fst (analyze_program E (w\<lparr>calls := calls w @ [ConsoleTaskMonitor_init]\<rparr>)) = Inr r
    \<and> json_dumps E r = Inr document \<longrightarrow>
      fst (main E w) =
        (None, [''__NEOGHIDRA_JSON_START__'', document, ''__NEOGHIDRA_JSON_END__'']))
   \<and> (fst (fst (main E w)) = None \<longrightarrow>
        (\<exists>r' document'.
            fst (analyze_program E (w\<lparr>calls := calls w @ [ConsoleTaskMonitor_init]\<rparr>)) = Inr r'
            \<and> json_dumps E r' = Inr document'
            \<and> snd (fst (main E w)) =
                [''__NEOGHIDRA_JSON_START__'', document', ''__NEOGHIDRA_JSON_END__'']))
   \<and> (fst (fst (main E w)) = Some e \<longrightarrow>
        snd (fst (main E w)) = [] \<or> snd (fst (main E w)) = [''__NEOGHIDRA_JSON_START__''])
   \<and> (fst (analyze_program E w) = Inl e \<longleftrightarrow>
        (\<exists>e0. fst (analyze_try E w) = Inl e0) \<and> currentProgram w \<noteq> None
        \<and> raises E (length (calls (snd (analyze_try E w)))) GetName = Some e)
   \<and> (\<exists>result. fst (rename_symbol E address_str new_name w) = Inr result)
   \<and> (\<exists>result. fst (set_data_type E address_str type_str w) = Inr result)"
proof (intro conjI)
  show "raises E (length (calls w)) ConsoleTaskMonitor_init = None
    \<and> fst (analyze_program E (w\<lparr>calls := calls w @ [ConsoleTaskMonitor_init]\<rparr>)) = Inr r
    \<and> json_dumps E r = Inr document \<longrightarrow>
      fst (main E w) =
        (None, [''__NEOGHIDRA_JSON_START__'', document, ''__NEOGHIDRA_JSON_END__''])"
    by (simp add: main_run split: prod.splits)
  show "fst (fst (main E w)) = None \<longrightarrow>
        (\<exists>r' document'.
            fst (analyze_program E (w\<lparr>calls := calls w @ [ConsoleTaskMonitor_init]\<rparr>)) = Inr r'
            \<and> json_dumps E r' = Inr document'
            \<and> snd (fst (main E w)) =
                [''__NEOGHIDRA_JSON_START__'', document', ''__NEOGHIDRA_JSON_END__''])"
    by (simp add: main_run split: option.splits prod.splits sum.splits)
  show "fst (fst (main E w)) = Some e \<longrightarrow>
        snd (fst (main E w)) = [] \<or> snd (fst (main E w)) = [''__NEOGHIDRA_JSON_START__'']"
    by (simp add: main_run split: option.splits prod.splits sum.splits)
  show "fst (analyze_program E w) = Inl e \<longleftrightarrow>
        (\<exists>e0. fst (analyze_try E w) = Inl e0) \<and> currentProgram w \<noteq> None
        \<and> raises E (length (calls (snd (analyze_try E w)))) GetName = Some e"
    by (rule analyze_program_raises_iff)
  show "\<exists>result. fst (rename_symbol E address_str new_name w) = Inr result"
    by (simp add: rename_symbol_def try_except_total)
  show "\<exists>result. fst (set_data_type E address_str type_str w) = Inr result"
    by (simp add: set_data_type_def try_except_total)
qed

theorem main_emits_document_witness:
  "fst (main (faults decompiler_died) stripped_world) =
     (None, [''__NEOGHIDRA_JSON_START__'', ''{error: true, message: decompiler process died}'',
             ''__NEOGHIDRA_JSON_END__''])
   \<and> fst (main demo_engine data_world) =
     (None, [''__NEOGHIDRA_JSON_START__'', ''{program_name: ...}'', ''__NEOGHIDRA_JSON_END__''])"
proof -
  let ?E = "faults decompiler_died"
  let ?v = "\<lparr>currentProgram = Some stripped_program, calls = [ConsoleTaskMonitor_init]\<rparr>"
  let ?w = "\<lparr>currentProgram = Some data_program, calls = [ConsoleTaskMonitor_init]\<rparr>"
  let ?r = "ErrorReport True ''decompiler process died''
            ''Traceback (most recent call last): decompiler process died'' ''demo.bin''"
  have v: "stripped_world\<lparr>calls := calls stripped_world @ [ConsoleTaskMonitor_init]\<rparr> = ?v"
    by (simp add: stripped_world_def)
  have w: "data_world\<lparr>calls := calls data_world @ [ConsoleTaskMonitor_init]\<rparr> = ?w"
    by (simp add: data_world_def)
  have raised: "fst (analyze_try ?E ?v) = Inl (EngineError ''decompiler process died'')"
    by (simp add: stripped_decompiler_dies)
  have handler: "raises ?E k GetName = None" for k
    by (simp add: faults_def decompiler_died_def)
  have name: "p_name stripped_program = ''demo.bin''"
    by (simp add: stripped_program_def demo_program_def)
  have trace: "format_exc ?E (EngineError ''decompiler process died'') =
      ''Traceback (most recent call last): decompiler process died''"
    by (simp add: faults_def demo_engine_def str_exn_def)
  have report: "fst (analyze_program ?E ?v) = Inr ?r"
    by (simp add: analyze_program_handles [OF raised] handler name trace str_exn_def)
  have monitor: "raises ?E (length (calls stripped_world)) ConsoleTaskMonitor_init = None"
    "raises demo_engine (length (calls data_world)) ConsoleTaskMonitor_init = None"
    by (simp_all add: faults_def decompiler_died_def demo_engine_def)
  have dumps: "json_dumps ?E ?r = Inr ''{error: true, message: decompiler process died}''"
    by (simp add: faults_def demo_engine_def)
  obtain a w' where ok: "analyze_try demo_engine ?w = (Inr (AnalysisReport a), w')"
    using data_analysis_succeeds [of "[ConsoleTaskMonitor_init]"] by blast
  then have "fst (analyze_try demo_engine ?w) = Inr (AnalysisReport a)" by simp
  from analyze_program_returns [OF this] ok
  have full: "fst (analyze_program demo_engine ?w) = Inr (AnalysisReport a)" by simp
  have dumps': "json_dumps demo_engine (AnalysisReport a) = Inr ''{program_name: ...}''"
    by (simp add: demo_engine_def)
  from main_emits_document
      [of ?E stripped_world ?r "''{error: true, message: decompiler process died}''"]
    main_emits_document
      [of demo_engine data_world "AnalysisReport a" "''{program_name: ...}''"]
    report monitor dumps full dumps' v w
  show ?thesis by simp
qed

end
